theory Spec2Isabelle
  imports Complex_Main
begin


section \<open>Python and NumPy values\<close>

text \<open>
  A Python \<open>str\<close> is a sequence of Unicode code points, so it is modelled as a list of
  natural numbers: \<open>len\<close> and slicing count code points, and the non-ASCII literals of
  the user interface are written by their code points. \<open>ascii\<close> embeds an ASCII literal.
  Floating-point numbers are idealised as real numbers.
\<close>

type_synonym pystr = "nat list"

definition ascii :: "string \<Rightarrow> pystr" where
  "ascii s = map of_char s"

text \<open>The result of a call that may raise an exception.\<close>

datatype 'a outcome = Raises | Returns 'a

text \<open>
  A division whose divisor is zero is an outcome of its own in the model (Python raises
  \<open>ZeroDivisionError\<close>, NumPy yields \<open>inf\<close> or \<open>nan\<close> with a warning), so that
  "never divides by zero" is a statement about the model.
\<close>

datatype py_error = ZeroDivisionError

text \<open>\<open>np.diff\<close>: the successive differences \<open>a[i+1] - a[i]\<close>.\<close>

definition np_diff :: "real list \<Rightarrow> real list" where
  "np_diff a = map (\<lambda>(x, y). y - x) (zip a (tl a))"

text \<open>\<open>np.mean\<close> of a non-empty array.\<close>

definition np_mean :: "real list \<Rightarrow> real" where
  "np_mean a = sum_list a / real (length a)"

text \<open>
  \<open>np.fft.fft\<close>: the discrete Fourier transform
  \<open>A[k] = \<Sum>n<N. a[n] * exp (-2 * pi * i * k * n / N)\<close>.
\<close>

definition np_fft_fft :: "real list \<Rightarrow> complex list" where
  "np_fft_fft a =
     (let N = length a
      in map (\<lambda>k. \<Sum>n<N. complex_of_real (a ! n) * cis (- (2 * pi * real k * real n / real N)))
           [0..<N])"

text \<open>
  \<open>np.fft.fftfreq(n, d)\<close>: with \<open>val = 1.0 / (n * d)\<close>, the integers
  \<open>0, 1, ..., (n-1)//2, -(n//2), ..., -1\<close> multiplied by \<open>val\<close>.
\<close>

definition np_fft_fftfreq :: "nat \<Rightarrow> real \<Rightarrow> py_error + real list" where
  "np_fft_fftfreq n d =
     (if real n * d = 0 then Inl ZeroDivisionError
      else let val = 1 / (real n * d)
           in Inr (map (\<lambda>i. real_of_int i * val)
                    (map int [0..<(n - 1) div 2 + 1] @
                     map (\<lambda>j. int j - int (n div 2)) [0..<n div 2])))"

text \<open>
  The amplitude expression \<open>2.0/N * np.abs(yf[0:N//2])\<close>, which \<open>plot_fft\<close> and
  \<open>export_fft_results_csv\<close> both evaluate.
\<close>

definition fft_amplitudes :: "nat \<Rightarrow> complex list \<Rightarrow> py_error + real list" where
  "fft_amplitudes N yf =
     (if N = 0 then Inl ZeroDivisionError
      else Inr (map (\<lambda>y. 2 / real N * cmod y) (take (N div 2) yf)))"

section \<open>The data manager\<close>

text \<open>
  The time series at a point, as \<open>get_timeseries_at_point\<close> returns it: one row per frame,
  holding the value of the time column and the value of the selected variable.
\<close>

type_synonym dataframe = "(real \<times> real) list"

text \<open>
  The class \<open>DataManager\<close> is not among the sources. Its state is a type parameter
  \<open>'dm\<close>, and the members the time-series dialog calls are the fields of \<open>timeseries_api\<close>
  (those the main window calls extend it below); a method that may change the data manager
  returns the new state.
\<close>

record 'dm timeseries_api =
  time_variable :: "'dm \<Rightarrow> pystr"
  get_variables :: "'dm \<Rightarrow> pystr list"
  global_stats :: "'dm \<Rightarrow> pystr \<rightharpoonup> real"
  get_timeseries_at_point :: "'dm \<Rightarrow> pystr \<Rightarrow> real \<times> real \<Rightarrow> real \<Rightarrow> dataframe option outcome"

section \<open>The time-series dialog\<close>

text \<open>
  What an axes shows: nothing, one of the dialog's messages, or a curve. Titles, axis
  labels, grids and tick formatters are left out.
\<close>

datatype ax_message = No_timeseries_found | Plot_failed | Invalid_timestamps | Zero_time_step

datatype axes = Cleared | Message ax_message | Curve "real list" "real list"

record combo_box =
  items :: "pystr list"
  current_index :: int

definition currentText :: "combo_box \<Rightarrow> pystr" where
  "currentText cb =
     (if 0 \<le> current_index cb \<and> current_index cb < int (length (items cb))
      then items cb ! nat (current_index cb) else [])"

text \<open>
  The fields \<open>xf\<close> and \<open>yf\<close> are \<open>None\<close> until \<open>plot_fft\<close> first assigns the
  attributes.
\<close>

record time_series_dialog =
  point_coords :: "real \<times> real"
  current_df :: "dataframe option"
  variable_combo :: combo_box
  fft_button_enabled :: bool
  export_fft_button_enabled :: bool
  ax_time :: axes
  ax_fft :: axes
  xf :: "real list option"
  yf :: "complex list option"

definition dict_get :: "('k \<rightharpoonup> 'v) \<Rightarrow> 'k \<Rightarrow> 'v \<Rightarrow> 'v" where
  "dict_get m k dflt = (case m k of None \<Rightarrow> dflt | Some v \<Rightarrow> v)"

text \<open>The search radius that \<open>plot_data\<close> passes to the data manager.\<close>

definition tolerance :: "'dm timeseries_api \<Rightarrow> 'dm \<Rightarrow> real" where
  "tolerance api dm =
     (let x_range = dict_get (global_stats api dm) (ascii ''x_global_max'') 1
                    - dict_get (global_stats api dm) (ascii ''x_global_min'') 0;
          y_range = dict_get (global_stats api dm) (ascii ''y_global_max'') 1
                    - dict_get (global_stats api dm) (ascii ''y_global_min'') 0
      in max (max (x_range * (1 / 100)) (y_range * (1 / 100))) (1 / 1000000))"

definition plot_data :: "'dm timeseries_api \<Rightarrow> 'dm \<Rightarrow> time_series_dialog \<Rightarrow> time_series_dialog" where
  "plot_data api dm self =
     (let selected_variable = currentText (variable_combo self)
      in if selected_variable = [] then self
         else
           let self1 = self\<lparr>ax_time := Cleared, ax_fft := Cleared\<rparr>
           in (case get_timeseries_at_point api dm selected_variable (point_coords self)
                      (tolerance api dm) of
                Raises \<Rightarrow>
                  self1\<lparr>ax_time := Message Plot_failed,
                        fft_button_enabled := False, export_fft_button_enabled := False\<rparr>
              | Returns df \<Rightarrow>
                  let self2 = self1\<lparr>current_df := df\<rparr>
                  in (case df of
                        None \<Rightarrow>
                          self2\<lparr>ax_time := Message No_timeseries_found,
                                fft_button_enabled := False, export_fft_button_enabled := False\<rparr>
                      | Some rows \<Rightarrow>
                          if rows = [] then
                            self2\<lparr>ax_time := Message No_timeseries_found,
                                  fft_button_enabled := False, export_fft_button_enabled := False\<rparr>
                          else
                            let is_valid_for_fft =
                                  (length rows > 1 \<and> list_all (\<lambda>dt. dt > 0) (np_diff (map fst rows)))
                            in self2\<lparr>ax_time := Curve (map fst rows) (map snd rows),
                                     fft_button_enabled := is_valid_for_fft,
                                     export_fft_button_enabled := False\<rparr>)))"

definition plot_fft :: "time_series_dialog \<Rightarrow> py_error + time_series_dialog" where
  "plot_fft self =
     (case current_df self of
        None \<Rightarrow> Inr self
      | Some rows \<Rightarrow>
          if rows = [] then Inr self
          else
            let signal = map snd rows;
                timestamps = map fst rows;
                N = length signal
            in if N < 2 then Inr self
               else
                 let time_diffs = np_diff timestamps
                 in if list_ex (\<lambda>dt. dt \<le> 0) time_diffs then
                      Inr (self\<lparr>ax_fft := Message Invalid_timestamps,
                                export_fft_button_enabled := False\<rparr>)
                    else
                      let T = np_mean time_diffs
                      in if T = 0 then Inr (self\<lparr>ax_fft := Message Zero_time_step\<rparr>)
                         else
                           let yf' = np_fft_fft (map (\<lambda>s. s - np_mean signal) signal)
                           in (case np_fft_fftfreq N T of
                                 Inl e \<Rightarrow> Inl e
                               | Inr freqs \<Rightarrow>
                                   let xf' = take (N div 2) freqs
                                   in (case fft_amplitudes N yf' of
                                         Inl e \<Rightarrow> Inl e
                                       | Inr amplitudes \<Rightarrow>
                                           Inr (self\<lparr>yf := Some yf', xf := Some xf',
                                                     ax_fft := Curve xf' amplitudes,
                                                     export_fft_button_enabled := True\<rparr>))))"

text \<open>
  \<open>export_fft_results_csv\<close>: the outcome is the warning for missing results, the table
  handed to \<open>to_csv\<close> (column names with their values), or the failure that the
  \<open>except\<close> clause reports. \<open>pd.DataFrame\<close> raises when its columns differ in length.
\<close>

datatype export_outcome =
    No_fft_results
  | Exported "(pystr \<times> real list) list"
  | Export_failed

definition export_fft_results_csv :: "time_series_dialog \<Rightarrow> export_outcome" where
  "export_fft_results_csv self =
     (case (xf self, yf self) of
        (Some xf', Some yf') \<Rightarrow>
          (let N = length yf'
           in (case fft_amplitudes N yf' of
                 Inl e \<Rightarrow> Export_failed
               | Inr amplitudes \<Rightarrow>
                   if length xf' \<noteq> length amplitudes then Export_failed
                   else Exported [(ascii ''Frequency (Hz)'', xf'), (ascii ''Amplitude'', amplitudes)]))
      | _ \<Rightarrow> No_fft_results)"

text \<open>
  The constructor: the combo box receives every variable but \<open>source_file\<close> (which
  selects the first one, if any), both buttons start disabled, and \<open>plot_data\<close> runs.
\<close>

definition TimeSeriesDialog :: "'dm timeseries_api \<Rightarrow> 'dm \<Rightarrow> real \<times> real \<Rightarrow> time_series_dialog" where
  "TimeSeriesDialog api dm coords =
     (let plot_vars = filter (\<lambda>v. v \<noteq> ascii ''source_file'') (get_variables api dm)
      in plot_data api dm
           \<lparr>point_coords = coords, current_df = None,
            variable_combo = \<lparr>items = plot_vars, current_index = (if plot_vars = [] then - 1 else 0)\<rparr>,
            fft_button_enabled = False, export_fft_button_enabled = False,
            ax_time = Cleared, ax_fft = Cleared, xf = None, yf = None\<rparr>)"

text \<open>Choosing another entry of the combo box emits \<open>currentIndexChanged\<close>, which calls \<open>plot_data\<close>.\<close>

definition select_variable :: "'dm timeseries_api \<Rightarrow> 'dm \<Rightarrow> int \<Rightarrow> time_series_dialog \<Rightarrow> time_series_dialog" where
  "select_variable api dm i self =
     plot_data api dm (self\<lparr>variable_combo := (variable_combo self)\<lparr>current_index := i\<rparr>\<rparr>)"

text \<open>
  A call of \<open>plot_fft\<close> is successful when it gets past the four early returns of the
  function and reaches the plotting statements.
\<close>

definition fft_reached :: "time_series_dialog \<Rightarrow> bool" where
  "fft_reached self =
     (case current_df self of
        None \<Rightarrow> False
      | Some rows \<Rightarrow>
          rows \<noteq> [] \<and> \<not> length rows < 2 \<and>
          \<not> list_ex (\<lambda>dt. dt \<le> 0) (np_diff (map fst rows)) \<and>
          np_mean (np_diff (map fst rows)) \<noteq> 0)"

text \<open>
  The life of a dialog: \<open>dialog_run api self recent\<close> holds when the dialog can be in state
  \<open>self\<close> after its construction and any sequence of calls of \<open>plot_data\<close> (with the
  data manager in any state), of changes of the selected variable and of calls of
  \<open>plot_fft\<close>; \<open>recent\<close> is the curve that the most recent successful call of
  \<open>plot_fft\<close> drew, if there was one.
\<close>

inductive dialog_run ::
  "'dm timeseries_api \<Rightarrow> time_series_dialog \<Rightarrow> (real list \<times> real list) option \<Rightarrow> bool"
  for api :: "'dm timeseries_api"
where
  constructed: "dialog_run api (TimeSeriesDialog api dm coords) None"
| replotted: "dialog_run api self recent \<Longrightarrow> dialog_run api (plot_data api dm self) recent"
| selected:
    "dialog_run api self recent \<Longrightarrow> 0 \<le> i \<Longrightarrow> i < int (length (items (variable_combo self))) \<Longrightarrow>
     dialog_run api (select_variable api dm i self) recent"
| fft_plotted:
    "dialog_run api self recent \<Longrightarrow> fft_reached self \<Longrightarrow> plot_fft self = Inr self' \<Longrightarrow>
     ax_fft self' = Curve freqs amplitudes \<Longrightarrow>
     dialog_run api self' (Some (freqs, amplitudes))"
| fft_refused:
    "dialog_run api self recent \<Longrightarrow> \<not> fft_reached self \<Longrightarrow> plot_fft self = Inr self' \<Longrightarrow>
     dialog_run api self' recent"

subsection \<open>A sample dialog\<close>

definition sample_rows :: dataframe where
  "sample_rows = [(0, 1), (1, 0), (2, - 1), (3, 0)]"

text \<open>
  A data manager whose state is one flag: while it is set, the time series at any point
  has the four rows above; before, it has a single row.
\<close>

definition sample_api :: "bool timeseries_api" where
  "sample_api =
     \<lparr>time_variable = (\<lambda>dm. ascii ''t''),
      get_variables = (\<lambda>dm. [ascii ''u'']),
      global_stats = (\<lambda>dm. Map.empty),
      get_timeseries_at_point =
        (\<lambda>dm v p tol. if dm then Returns (Some sample_rows) else Returns (Some [(0, 1)]))\<rparr>"

text \<open>
  The same data manager with a second variable, whose name is empty and for which it has
  no time series.
\<close>

definition sample_api_unnamed :: "bool timeseries_api" where
  "sample_api_unnamed =
     \<lparr>time_variable = (\<lambda>dm. ascii ''t''),
      get_variables = (\<lambda>dm. [ascii ''u'', []]),
      global_stats = (\<lambda>dm. Map.empty),
      get_timeseries_at_point =
        (\<lambda>dm v p tol. if v = [] then Returns None else Returns (Some sample_rows))\<rparr>"

definition sample_dialog :: time_series_dialog where
  "sample_dialog =
     \<lparr>point_coords = (0, 0), current_df = Some sample_rows,
      variable_combo = \<lparr>items = [ascii ''u''], current_index = 0\<rparr>,
      fft_button_enabled = True, export_fft_button_enabled = False,
      ax_time = Curve [0, 1, 2, 3] [1, 0, - 1, 0], ax_fft = Cleared,
      xf = None, yf = None\<rparr>"

section \<open>Text\<close>

text \<open>
  \<open>str.strip\<close> removes the leading and trailing white space; \<open>py_isspace\<close> lists the
  code points that Python counts as white space.
\<close>

definition py_isspace :: "nat \<Rightarrow> bool" where
  "py_isspace c =
     ((9 \<le> c \<and> c \<le> 13) \<or> (28 \<le> c \<and> c \<le> 32) \<or> c = 0x85 \<or> c = 0xA0 \<or> c = 0x1680 \<or>
      (0x2000 \<le> c \<and> c \<le> 0x200A) \<or> c = 0x2028 \<or> c = 0x2029 \<or> c = 0x202F \<or>
      c = 0x205F \<or> c = 0x3000)"

definition strip :: "pystr \<Rightarrow> pystr" where
  "strip s = rev (dropWhile py_isspace (rev (dropWhile py_isspace s)))"

definition startswith :: "pystr \<Rightarrow> pystr \<Rightarrow> bool" where
  "startswith s p = (take (length p) s = p)"

text \<open>\<open>s.split('\n')\<close>: the pieces of \<open>s\<close> between line feeds, at least one.\<close>

fun split_lines :: "pystr \<Rightarrow> pystr list" where
  "split_lines [] = [[]]"
| "split_lines (c # cs) =
     (if c = 10 then [] # split_lines cs
      else (case split_lines cs of [] \<Rightarrow> [[c]] | l # ls \<Rightarrow> (c # l) # ls))"

text \<open>\<open>sep.join(xs)\<close>.\<close>

fun join :: "pystr \<Rightarrow> pystr list \<Rightarrow> pystr" where
  "join sep [] = []"
| "join sep [x] = x"
| "join sep (x # y # ys) = x @ sep @ join sep (y # ys)"

text \<open>\<open>str\<close> of an integer: its decimal digits, after a minus sign when it is negative.\<close>

fun str_nat :: "nat \<Rightarrow> pystr" where
  "str_nat n = (if n < 10 then [48 + n] else str_nat (n div 10) @ [48 + n mod 10])"

definition str_int :: "int \<Rightarrow> pystr" where
  "str_int i = (if i < 0 then ascii ''-'' @ str_nat (nat (- i)) else str_nat (nat i))"

text \<open>
  The format specification \<open>.pf\<close> (\<open>p > 0\<close>) applied to a number: the value rounded to
  \<open>p\<close> decimals, exact halves going to the even neighbour, with all \<open>p\<close> decimals
  written.
\<close>

definition round_half_even :: "real \<Rightarrow> int" where
  "round_half_even x =
     (let f = \<lfloor>x\<rfloor>; r = x - of_int f
      in if r < 1 / 2 then f else if 1 / 2 < r then f + 1 else if even f then f else f + 1)"

definition format_fixed :: "nat \<Rightarrow> real \<Rightarrow> pystr" where
  "format_fixed p x =
     (let n = nat (round_half_even (\<bar>x\<bar> * 10 ^ p));
          fraction = str_nat (n mod 10 ^ p)
      in (if x < 0 then ascii ''-'' else []) @ str_nat (n div 10 ^ p) @ ascii ''.'' @
         replicate (p - length fraction) 48 @ fraction)"

section \<open>Formula editors\<close>

text \<open>
  A formula editor of the main window is a \<open>QLineEdit\<close> or a multi-line text editor.
  The class \<open>FormulaEngine\<close> is not among the sources: \<open>validate_syntax\<close> is a parameter
  that maps a text to a verdict and an error message.
\<close>

record formula_editor =
  is_line_edit :: bool
  editor_text :: pystr
  style_sheet :: pystr
  tool_tip :: pystr

type_synonym validator = "pystr \<Rightarrow> bool \<times> pystr"

text \<open>The test \<open>line.strip() and not line.strip().startswith('#')\<close>.\<close>

definition is_formula_line :: "pystr \<Rightarrow> bool" where
  "is_formula_line line = (strip line \<noteq> [] \<and> \<not> startswith (strip line) (ascii ''#''))"

text \<open>The message \<open>f"Line '{line[:30]}...': {error_msg}"\<close>.\<close>

definition line_error :: "pystr \<Rightarrow> pystr \<Rightarrow> pystr" where
  "line_error line error_msg =
     ascii ''Line '' @ [39] @ take 30 line @ ascii ''...'' @ [39] @ ascii '': '' @ error_msg"

text \<open>
  The state of the validation of one editor: \<open>all_valid\<close>, \<open>errors\<close>, and the texts
  handed to \<open>validate_syntax\<close> so far, in order.
\<close>

type_synonym validation = "bool \<times> pystr list \<times> pystr list"

definition check_line :: "validator \<Rightarrow> validation \<Rightarrow> pystr \<Rightarrow> validation" where
  "check_line validate_syntax st line =
     (case st of (all_valid, errors, calls) \<Rightarrow>
        if is_formula_line line then
          (case validate_syntax line of (is_valid, error_msg) \<Rightarrow>
             if \<not> is_valid then (False, [line_error line error_msg], calls @ [line])
             else (all_valid, errors, calls @ [line]))
        else (all_valid, errors, calls))"

definition validate_text :: "validator \<Rightarrow> formula_editor \<Rightarrow> validation" where
  "validate_text validate_syntax editor =
     (let formula_text = editor_text editor
      in if is_line_edit editor then
           (case validate_syntax formula_text of (is_valid, error_msg) \<Rightarrow>
              if \<not> is_valid then (False, [error_msg], [formula_text])
              else (True, [], [formula_text]))
         else foldl (check_line validate_syntax) (True, [], []) (split_lines formula_text))"

definition validate_editor :: "validator \<Rightarrow> formula_editor \<Rightarrow> formula_editor" where
  "validate_editor validate_syntax editor =
     (case validate_text validate_syntax editor of (all_valid, errors, calls) \<Rightarrow>
        editor\<lparr>style_sheet := (if all_valid then [] else ascii ''background-color: #ffe0e0;''),
               tool_tip := join [10] errors\<rparr>)"

text \<open>
  The claim's reading of the check, for comparison with the code: the lines of the
  editor's text that are not empty and are not comments.
\<close>

definition claimed_checked_lines :: "formula_editor \<Rightarrow> pystr list" where
  "claimed_checked_lines editor = filter is_formula_line (split_lines (editor_text editor))"

subsection \<open>Sample editors\<close>

definition reject_blank :: validator where
  "reject_blank s = (if strip s = [] then (False, ascii ''empty formula'') else (True, []))"

definition reject_odd :: validator where
  "reject_odd s = (if even (length s) then (True, []) else (False, ascii ''odd''))"

definition blank_line_edit :: formula_editor where
  "blank_line_edit = \<lparr>is_line_edit = True, editor_text = [], style_sheet = [], tool_tip = []\<rparr>"

definition sample_text_edit :: formula_editor where
  "sample_text_edit =
     \<lparr>is_line_edit = False, editor_text = ascii ''ab'' @ [10] @ ascii ''# c'' @ [10] @ ascii ''xyz'',
      style_sheet = [], tool_tip = []\<rparr>"

definition sample_filter_edit :: formula_editor where
  "sample_filter_edit =
     \<lparr>is_line_edit = True, editor_text = ascii ''u >'', style_sheet = [], tool_tip = []\<rparr>"

section \<open>The main window\<close>

subsection \<open>Values and widgets\<close>

text \<open>A Python dictionary with string keys, as an association list; \<open>d.get(k, dflt)\<close> is \<open>dict_get (map_of d) k dflt\<close>.\<close>

type_synonym 'v dict = "(pystr \<times> 'v) list"

datatype pyval = PyNone | PyBool bool | PyInt int | PyStr pystr

text \<open>The truth value that \<open>if v:\<close> tests.\<close>

fun truthy :: "pyval \<Rightarrow> bool" where
  "truthy PyNone = False"
| "truthy (PyBool b) = b"
| "truthy (PyInt i) = (i \<noteq> 0)"
| "truthy (PyStr s) = (s \<noteq> [])"

type_synonym frame = "real list dict"

type_synonym grid = "real list list"

text \<open>A time stamp is a number (\<open>float\<close> or \<open>np.number\<close>) or any other value, kept as its \<open>str\<close>.\<close>

datatype ts_value = Number real | Other pystr

text \<open>The dictionary of \<open>get_cache_info\<close>, with its keys \<open>size\<close> and \<open>max_size\<close>.\<close>

record cache_info =
  cache_size :: int
  cache_max_size :: int

text \<open>The dictionary of \<open>get_database_info\<close>; a field is \<open>None\<close> when its key is absent.\<close>

record database_info =
  frame_count :: "int option"
  variables :: "pystr list option"
  db_size_mb :: "real option"
  zarr_size_mb :: "real option"

text \<open>
  The members of \<open>DataManager\<close> that the main window calls. \<open>zarr_path\<close> and
  \<open>db_path\<close> are \<open>None\<close> before a project directory is set up.
\<close>

record 'dm manager_api = "'dm timeseries_api" +
  get_frame_count :: "'dm \<Rightarrow> int"
  get_frame_data :: "'dm \<Rightarrow> int \<Rightarrow> pystr list option \<Rightarrow> frame option \<times> 'dm"
  get_frame_info :: "'dm \<Rightarrow> int \<Rightarrow> ts_value dict option"
  get_cache_info :: "'dm \<Rightarrow> cache_info"
  set_cache_size :: "'dm \<Rightarrow> int \<Rightarrow> 'dm"
  get_database_info :: "'dm \<Rightarrow> database_info"
  zarr_path :: "'dm \<Rightarrow> pystr option"
  db_path :: "'dm \<Rightarrow> pystr option"
  setup_project_directory :: "'dm \<Rightarrow> pystr \<Rightarrow> bool \<times> 'dm"
  is_database_ready :: "'dm \<Rightarrow> bool"
  set_global_filter :: "'dm \<Rightarrow> pystr \<Rightarrow> pystr + 'dm"

text \<open>
  \<open>set_global_filter\<close> returns the new state, or the message of the \<open>ValueError\<close> that
  it raises.
\<close>

text \<open>
  The frame cache of the data manager: the frames it holds, by frame index, and the
  number of frames it may hold.
\<close>

record frame_cache =
  cached_frames :: "(int \<times> frame) list"
  capacity :: int

text \<open>
  Modelled from the spec: \<open>DataManager.set_cache_size\<close> is not among the sources.
  Setting the cache size sets the capacity of the frame cache. What a smaller capacity
  does to the frames already cached is not said; the model keeps them.
\<close>

definition frame_cache_set_size :: "frame_cache \<Rightarrow> int \<Rightarrow> frame_cache" where
  "frame_cache_set_size cache n = cache\<lparr>capacity := n\<rparr>"

text \<open>
  Modelled from the spec: \<open>DataManager.get_cache_info\<close> is not among the sources. It
  reports the current occupancy of the cache as \<open>size\<close> and its capacity as
  \<open>max_size\<close>.
\<close>

definition frame_cache_info :: "frame_cache \<Rightarrow> cache_info" where
  "frame_cache_info cache =
     \<lparr>cache_size = int (length (cached_frames cache)), cache_max_size = capacity cache\<rparr>"

text \<open>A data manager whose state is its frame cache, with any other members.\<close>

definition with_frame_cache :: "frame_cache manager_api \<Rightarrow> frame_cache manager_api" where
  "with_frame_cache api = api\<lparr>get_cache_info := frame_cache_info, set_cache_size := frame_cache_set_size\<rparr>"

text \<open>\<open>QSlider\<close>: \<open>setValue\<close> keeps the value within the slider's range.\<close>

record slider =
  minimum :: int
  maximum :: int
  slider_value :: int

definition setValue :: "slider \<Rightarrow> int \<Rightarrow> slider" where
  "setValue s v = s\<lparr>slider_value := max (minimum s) (min (maximum s) v)\<rparr>"

datatype picker_mode = TIMESERIES | PROFILE_START | PROFILE_END | VMIN | VMAX

text \<open>
  The plot widget: the frame it was last given by \<open>update_data\<close>, its interpolated
  results (\<open>None\<close>, or a dictionary whose entries may be \<open>None\<close>), the last mouse
  position and the picker mode.
\<close>

record plot_widget =
  plot_data_frame :: "frame option"
  interpolated_results :: "grid option dict option"
  last_mouse_coords :: "(real \<times> real) option"
  picker_mode :: "picker_mode option"

definition update_data :: "plot_widget \<Rightarrow> frame \<Rightarrow> plot_widget" where
  "update_data pw data = pw\<lparr>plot_data_frame := Some data\<rparr>"

text \<open>The configuration of \<open>get_current_config\<close>: the dictionaries of the three layers.\<close>

record config =
  heatmap :: "pyval dict"
  contour :: "pyval dict"
  vector :: "pyval dict"

record import_dialog =
  dialog_title :: pystr
  dialog_visible :: bool

datatype signal = Progress | Log_message | Finished | Error

datatype slot = Update_progress | Set_log_message | On_import_finished | On_error

record data_import_worker =
  connections :: "(signal \<times> slot) list"
  running :: bool

record profile_plot_dialog =
  start_point :: "real \<times> real"
  end_point :: "real \<times> real"
  profile_results :: "grid option dict"
  available_data :: "pyval dict"
  profile_output_dir :: pystr
  profile_visible :: bool

datatype standard_button = Yes | No

text \<open>
  What the window does to the outside, in the order it does it: message boxes (title and
  text), status-bar messages (text and timeout), log lines, the operations on the import
  worker and its progress dialog, and the calls of methods whose bodies are not modelled.
\<close>

datatype event =
    Message_warning pystr pystr
  | Message_information pystr pystr
  | Message_critical pystr pystr
  | Message_question pystr pystr
  | Status_message pystr int
  | Status_clear
  | Log_info pystr
  | Worker_connect signal slot
  | Worker_start
  | Import_dialog_exec
  | Import_dialog_accept
  | Load_project_data
  | Refresh_plot
  | Profile_dialog_close
  | Profile_dialog_show
  | Probe_request real real

record 'dm main_window =
  data_manager :: 'dm
  project_dir :: pystr
  output_dir :: pystr
  current_frame_index :: int
  time_slider :: slider
  plot_widget :: plot_widget
  frame_info_label :: pystr
  timestamp_label :: pystr
  cache_label :: pystr
  db_info_label_text :: pystr
  db_info_label_tool_tip :: pystr
  cache_size_spinbox :: int
  draw_profile_btn :: bool
  x_axis_formula :: formula_editor
  y_axis_formula :: formula_editor
  chart_title_edit :: formula_editor
  heatmap_formula :: formula_editor
  contour_formula :: formula_editor
  vector_u_formula :: formula_editor
  vector_v_formula :: formula_editor
  new_variable_formula_edit :: formula_editor
  filter_text_edit :: formula_editor
  new_time_agg_formula_edit :: formula_editor
  filter_enabled_checkbox :: bool
  current_config :: config
  import_progress_dialog :: "import_dialog option"
  import_worker :: "data_import_worker option"
  profile_dialog :: "profile_plot_dialog option"
  events :: "event list"

definition emit :: "event \<Rightarrow> 'dm main_window \<Rightarrow> 'dm main_window" where
  "emit e self = self\<lparr>events := events self @ [e]\<rparr>"

subsection \<open>Frames, the cache label and the database label\<close>

definition update_frame_info ::
  "'dm manager_api \<Rightarrow> bool \<Rightarrow> int \<Rightarrow> int \<Rightarrow> 'dm main_window \<Rightarrow> 'dm main_window" where
  "update_frame_info api is_time_avg start end' self =
     (let self1 =
        (if is_time_avg then
           self\<lparr>frame_info_label :=
                   [0x65F6, 0x95F4, 0x5E73, 0x5747] @ ascii '': '' @ [0x5E27] @ ascii '' '' @
                   str_int start @ ascii ''-'' @ str_int end',
                 timestamp_label := []\<rparr>
         else
           let fc = get_frame_count api (data_manager self);
               self' = self\<lparr>frame_info_label :=
                         [0x5E27] @ ascii '': '' @ str_int (current_frame_index self + 1) @ ascii ''/'' @
                         (if fc \<noteq> 0 then str_int fc else ascii ''?'')\<rparr>;
               info = get_frame_info api (data_manager self) (current_frame_index self)
           in (case info of
                 None \<Rightarrow> self'
               | Some d \<Rightarrow>
                   (case map_of d (ascii ''timestamp'') of
                      None \<Rightarrow> self'
                    | Some ts_val \<Rightarrow>
                        let ts_str = (case ts_val of Number x \<Rightarrow> format_fixed 4 x | Other s \<Rightarrow> s)
                        in self'\<lparr>timestamp_label :=
                                   [0x65F6, 0x95F4] @ ascii ''('' @
                                   time_variable api (data_manager self) @ ascii ''): '' @ ts_str\<rparr>)))
      in self1\<lparr>cache_label :=
                 [0x7F13, 0x5B58] @ ascii '': '' @
                 str_int (cache_size (get_cache_info api (data_manager self1))) @ ascii ''/'' @
                 str_int (cache_max_size (get_cache_info api (data_manager self1)))\<rparr>)"

definition load_frame ::
  "'dm manager_api \<Rightarrow> int \<Rightarrow> pystr list option \<Rightarrow> 'dm main_window \<Rightarrow> 'dm main_window" where
  "load_frame api frame_index required_columns self =
     (if \<not> (0 \<le> frame_index \<and> frame_index < get_frame_count api (data_manager self)) then self
      else
        (case get_frame_data api (data_manager self) frame_index required_columns of
           (data, dm') \<Rightarrow>
             let self1 = self\<lparr>data_manager := dm'\<rparr>
             in (case data of
                   None \<Rightarrow> self1
                 | Some frame \<Rightarrow>
                     let self2 = self1\<lparr>current_frame_index := frame_index\<rparr>;
                         self3 = self2\<lparr>time_slider := setValue (time_slider self2) frame_index\<rparr>;
                         self4 = self3\<lparr>plot_widget := update_data (plot_widget self3) frame\<rparr>;
                         self5 = update_frame_info api False 0 0 self4
                     in (case last_mouse_coords (plot_widget self5) of
                           None \<Rightarrow> self5
                         | Some (x, y) \<Rightarrow> emit (Probe_request x y) self5))))"


text \<open>\<open>str\<close> of an attribute that may be \<open>None\<close>.\<close>

definition str_optional :: "pystr option \<Rightarrow> pystr" where
  "str_optional p = (case p of None \<Rightarrow> ascii ''None'' | Some s \<Rightarrow> s)"

definition update_db_info :: "'dm manager_api \<Rightarrow> 'dm main_window \<Rightarrow> 'dm main_window" where
  "update_db_info api self =
     (let info = get_database_info api (data_manager self);
          fc = (case frame_count info of None \<Rightarrow> 0 | Some v \<Rightarrow> v);
          variables' = (case variables info of None \<Rightarrow> [] | Some v \<Rightarrow> v);
          db_size = (case db_size_mb info of None \<Rightarrow> 0 | Some v \<Rightarrow> v);
          zarr_size = (case zarr_size_mb info of None \<Rightarrow> 0 | Some v \<Rightarrow> v);
          db_info_text =
            [0x5E27] @ ascii '': '' @ str_int fc @ ascii '' | '' @ [0x53D8, 0x91CF] @ ascii '': '' @
            str_int (int (length variables')) @ ascii '' | '' @ [0x5927, 0x5C0F] @ ascii '': '' @
            format_fixed 2 zarr_size @ ascii '' MB ('' @ [0x6570, 0x636E] @ ascii '') + '' @
            format_fixed 2 db_size @ ascii '' MB ('' @ [0x5143, 0x6570, 0x636E] @ ascii '')'';
          tooltip_text =
            [0x6570, 0x636E] @ ascii '' (Zarr): '' @ str_optional (zarr_path api (data_manager self)) @
            [10, 0x5143, 0x6570, 0x636E] @ ascii '' (SQLite): '' @
            str_optional (db_path api (data_manager self))
      in self\<lparr>db_info_label_text := db_info_text, db_info_label_tool_tip := tooltip_text\<rparr>)"

subsection \<open>Formula validation and the global filter\<close>

definition get_all_formula_editors :: "'dm main_window \<Rightarrow> formula_editor list" where
  "get_all_formula_editors self =
     [x_axis_formula self, y_axis_formula self, chart_title_edit self, heatmap_formula self,
      contour_formula self, vector_u_formula self, vector_v_formula self,
      new_variable_formula_edit self, filter_text_edit self, new_time_agg_formula_edit self]"

text \<open>\<open>_validate_all_formulas\<close>: each editor of \<open>_get_all_formula_editors\<close> is validated in place.\<close>

definition validate_all_formulas :: "validator \<Rightarrow> 'dm main_window \<Rightarrow> 'dm main_window" where
  "validate_all_formulas validate_syntax self =
     self\<lparr>x_axis_formula := validate_editor validate_syntax (x_axis_formula self),
          y_axis_formula := validate_editor validate_syntax (y_axis_formula self),
          chart_title_edit := validate_editor validate_syntax (chart_title_edit self),
          heatmap_formula := validate_editor validate_syntax (heatmap_formula self),
          contour_formula := validate_editor validate_syntax (contour_formula self),
          vector_u_formula := validate_editor validate_syntax (vector_u_formula self),
          vector_v_formula := validate_editor validate_syntax (vector_v_formula self),
          new_variable_formula_edit := validate_editor validate_syntax (new_variable_formula_edit self),
          filter_text_edit := validate_editor validate_syntax (filter_text_edit self),
          new_time_agg_formula_edit := validate_editor validate_syntax (new_time_agg_formula_edit self)\<rparr>"

text \<open>
  \<open>_apply_global_filter\<close>. The refresh of the plot is recorded as an event; a
  \<open>ValueError\<close> of \<open>set_global_filter\<close> leads to the critical message box.
\<close>

definition apply_global_filter :: "'dm manager_api \<Rightarrow> 'dm main_window \<Rightarrow> 'dm main_window" where
  "apply_global_filter api self =
     (let filter_text = (if filter_enabled_checkbox self then editor_text (filter_text_edit self) else [])
      in case set_global_filter api (data_manager self) filter_text of
           Inl e \<Rightarrow>
             emit (Message_critical [0x8FC7, 0x6EE4, 0x5668, 0x9519, 0x8BEF]
                     ([0x8FC7, 0x6EE4, 0x5668, 0x8BED, 0x6CD5, 0x65E0, 0x6548] @ ascii '': '' @ e)) self
         | Inr dm' \<Rightarrow>
             let self1 = self\<lparr>data_manager := dm'\<rparr>;
                 self2 =
                   (if filter_text \<noteq> [] then
                      emit (Message_information [0x8FC7, 0x6EE4, 0x5668, 0x63D0, 0x793A]
                              [0x5168, 0x5C40, 0x8FC7, 0x6EE4, 0x5668, 0x5DF2, 0x8BBE, 0x7F6E, 0x3002,
                               10, 10, 0x8BF7, 0x6CE8, 0x610F, 0xFF1A, 0x5728, 0x5F53, 0x524D, 0x7248,
                               0x672C, 0x4E2D, 0xFF0C, 0x6B64, 0x8FC7, 0x6EE4, 0x5668, 0x4E3B, 0x8981,
                               0x7528, 0x4E8E, 0x6570, 0x636E, 0x5BFC, 0x51FA, 0xFF0C, 0x5C1A, 0x4E0D,
                               0x4F1A, 0x5F71, 0x54CD, 0x5B9E, 0x65F6, 0x53EF, 0x89C6, 0x5316, 0x548C,
                               0x8BA1, 0x7B97, 0x3002]) self1
                    else self1);
                 self3 = emit Refresh_plot self2
             in emit (Status_message
                        [0x5168, 0x5C40, 0x8FC7, 0x6EE4, 0x5668, 0x5DF2, 0x5E94, 0x7528, 0x3002] 3000)
                  self3)"

subsection \<open>Profile lines\<close>

text \<open>
  Unchecking the profile button emits \<open>toggled(False)\<close> when the button was checked;
  \<open>_on_draw_profile_toggled\<close> then leaves the profile picker modes.
\<close>

definition uncheck_draw_profile_btn :: "'dm main_window \<Rightarrow> 'dm main_window" where
  "uncheck_draw_profile_btn self =
     (if draw_profile_btn self then
        let self1 = self\<lparr>draw_profile_btn := False\<rparr>
        in if picker_mode (plot_widget self1) \<in> {Some PROFILE_START, Some PROFILE_END} then
             emit Status_clear (self1\<lparr>plot_widget := (plot_widget self1)\<lparr>picker_mode := None\<rparr>\<rparr>)
           else self1
      else self)"

definition profile_keys :: "pystr list" where
  "profile_keys = [ascii ''heatmap'', ascii ''contour'', ascii ''vector_u'', ascii ''vector_v'']"

text \<open>The formula that the loop of \<open>_on_profile_line_defined\<close> finds for a key.\<close>

definition layer_formula :: "config \<Rightarrow> pystr \<Rightarrow> pyval" where
  "layer_formula config key =
     (if key = ascii ''heatmap'' \<and> truthy (dict_get (map_of (heatmap config)) (ascii ''enabled'') PyNone)
        then dict_get (map_of (heatmap config)) (ascii ''formula'') (PyStr key)
      else if key = ascii ''contour'' \<and> truthy (dict_get (map_of (contour config)) (ascii ''enabled'') PyNone)
        then dict_get (map_of (contour config)) (ascii ''formula'') (PyStr key)
      else if key = ascii ''vector_u'' \<and> truthy (dict_get (map_of (vector config)) (ascii ''enabled'') PyNone)
        then dict_get (map_of (vector config)) (ascii ''u_formula'') (PyStr key)
      else if key = ascii ''vector_v'' \<and> truthy (dict_get (map_of (vector config)) (ascii ''enabled'') PyNone)
        then dict_get (map_of (vector config)) (ascii ''v_formula'') (PyStr key)
      else PyStr [])"

definition add_available :: "grid option dict \<Rightarrow> config \<Rightarrow> pyval dict \<Rightarrow> pystr \<Rightarrow> pyval dict" where
  "add_available results config available key =
     (case map_of results (key @ ascii ''_data'') of
        Some (Some g) \<Rightarrow>
          let formula = layer_formula config key
          in if truthy formula then available @ [(key, formula)] else available
      | _ \<Rightarrow> available)"

definition on_profile_line_defined ::
  "real \<times> real \<Rightarrow> real \<times> real \<Rightarrow> 'dm main_window \<Rightarrow> 'dm main_window" where
  "on_profile_line_defined start_point' end_point' self =
     (let self1 = uncheck_draw_profile_btn self
      in case interpolated_results (plot_widget self1) of
           None \<Rightarrow>
             emit (Message_warning [0x65E0, 0x6570, 0x636E]
                     [0x65E0, 0x53EF, 0x7528, 0x4E8E, 0x5256, 0x9762, 0x7684, 0x63D2, 0x503C,
                      0x6570, 0x636E, 0x3002]) self1
         | Some results \<Rightarrow>
             if results = [] then
               emit (Message_warning [0x65E0, 0x6570, 0x636E]
                       [0x65E0, 0x53EF, 0x7528, 0x4E8E, 0x5256, 0x9762, 0x7684, 0x63D2, 0x503C,
                        0x6570, 0x636E, 0x3002]) self1
             else
               let self2 =
                     (case profile_dialog self1 of
                        None \<Rightarrow> self1
                      | Some d \<Rightarrow>
                          if profile_visible d then
                            emit Profile_dialog_close
                              (self1\<lparr>profile_dialog := Some (d\<lparr>profile_visible := False\<rparr>)\<rparr>)
                          else self1);
                   available = foldl (add_available results (current_config self2)) [] profile_keys
               in emit Profile_dialog_show
                    (self2\<lparr>profile_dialog :=
                              Some \<lparr>start_point = start_point', end_point = end_point',
                                    profile_results = results, available_data = available,
                                    profile_output_dir = output_dir self2,
                                    profile_visible = True\<rparr>\<rparr>))"

subsection \<open>Importing and initialising a project\<close>

definition worker_connect :: "signal \<Rightarrow> slot \<Rightarrow> 'dm main_window \<Rightarrow> 'dm main_window" where
  "worker_connect sig handler self =
     emit (Worker_connect sig handler)
       (self\<lparr>import_worker :=
               map_option (\<lambda>w. w\<lparr>connections := connections w @ [(sig, handler)]\<rparr>)
                 (import_worker self)\<rparr>)"

text \<open>
  \<open>_start_database_import\<close>. The call of \<open>exec\<close> shows the dialog and runs its event
  loop, in which the worker's signals are delivered.
\<close>

definition start_database_import :: "'dm main_window \<Rightarrow> 'dm main_window" where
  "start_database_import self =
     (let self1 = self\<lparr>import_progress_dialog :=
                         Some \<lparr>dialog_title =
                                 [0x6B63, 0x5728, 0x521B, 0x5EFA, 0x548C, 0x5206, 0x6790, 0x6570,
                                  0x636E, 0x5B58, 0x50A8] @ ascii ''...'',
                               dialog_visible = False\<rparr>\<rparr>;
          self2 = self1\<lparr>import_worker := Some \<lparr>connections = [], running = False\<rparr>\<rparr>;
          self3 = worker_connect Progress Update_progress self2;
          self4 = worker_connect Log_message Set_log_message self3;
          self5 = worker_connect Finished On_import_finished self4;
          self6 = worker_connect Error On_error self5;
          self7 = emit Worker_start
                    (self6\<lparr>import_worker := map_option (\<lambda>w. w\<lparr>running := True\<rparr>) (import_worker self6)\<rparr>)
      in emit Import_dialog_exec
           (self7\<lparr>import_progress_dialog :=
                     map_option (\<lambda>d. d\<lparr>dialog_visible := True\<rparr>) (import_progress_dialog self7)\<rparr>))"

text \<open>\<open>accept\<close> hides the dialog and ends its event loop.\<close>

definition accept_import_dialog :: "'dm main_window \<Rightarrow> 'dm main_window" where
  "accept_import_dialog self =
     emit Import_dialog_accept
       (self\<lparr>import_progress_dialog :=
               map_option (\<lambda>d. d\<lparr>dialog_visible := False\<rparr>) (import_progress_dialog self)\<rparr>)"

definition on_import_finished :: "'dm main_window \<Rightarrow> 'dm main_window" where
  "on_import_finished self =
     (let self1 = (case import_progress_dialog self of
                     None \<Rightarrow> self
                   | Some d \<Rightarrow> accept_import_dialog self);
          self2 = emit (Message_information [0x5BFC, 0x5165, 0x5B8C, 0x6210]
                          [0x6570, 0x636E, 0x5B58, 0x50A8, 0x5DF2, 0x6210, 0x529F, 0x521B, 0x5EFA,
                           0xFF0C, 0x57FA, 0x7840, 0x7EDF, 0x8BA1, 0x6570, 0x636E, 0x5DF2, 0x8BA1,
                           0x7B97, 0x5B8C, 0x6BD5, 0x3002]) self1
      in emit Load_project_data self2)"

definition on_error :: "pystr \<Rightarrow> 'dm main_window \<Rightarrow> 'dm main_window" where
  "on_error message self =
     (let self1 = (case import_progress_dialog self of
                     None \<Rightarrow> self
                   | Some d \<Rightarrow> if dialog_visible d then accept_import_dialog self else self);
          self2 = emit (Status_message ([0x9519, 0x8BEF] @ ascii '': '' @ message) 5000) self1
      in emit (Message_critical [0x53D1, 0x751F, 0x9519, 0x8BEF] message) self2)"

text \<open>
  \<open>_initialize_project\<close>; \<open>reply\<close> is the button with which the user answers the
  question, should it be asked.
\<close>

definition initialize_project ::
  "'dm manager_api \<Rightarrow> standard_button \<Rightarrow> 'dm main_window \<Rightarrow> 'dm main_window" where
  "initialize_project api reply self =
     (case setup_project_directory api (data_manager self) (project_dir self) of
        (ok, dm') \<Rightarrow>
          let self1 = self\<lparr>data_manager := dm'\<rparr>
          in if \<not> ok then self1
             else if is_database_ready api (data_manager self1) then
               emit Load_project_data
                 (emit (Log_info ([0x5728] @ ascii '' '' @ project_dir self1 @ ascii '' '' @
                          [0x4E2D, 0x627E, 0x5230, 0x73B0, 0x6709, 0x6570, 0x636E, 0x5B58, 0x50A8,
                           0xFF0C, 0x76F4, 0x63A5, 0x52A0, 0x8F7D, 0x3002])) self1)
             else
               let self2 = emit (Message_question
                                   [0x672A, 0x627E, 0x5230, 0x6570, 0x636E, 0x5B58, 0x50A8]
                                   ([0x5728, 0x76EE, 0x5F55] @ ascii '' '' @ [39] @ project_dir self1 @
                                    [39] @ ascii '' '' @
                                    [0x4E2D, 0x672A, 0x627E, 0x5230, 0x6570, 0x636E, 0x6587, 0x4EF6,
                                     0x3002, 10, 10, 0x662F, 0x5426, 0x4ECE, 0x6B64, 0x76EE, 0x5F55,
                                     0x4E2D, 0x7684, 0x6240, 0x6709] @ ascii ''CSV'' @
                                    [0x6587, 0x4EF6, 0x521B, 0x5EFA, 0x65B0, 0x7684, 0x6570, 0x636E,
                                     0x5B58, 0x50A8, 0xFF1F])) self1
               in if reply = Yes then start_database_import self2
                  else emit (Status_message
                               ([0x64CD, 0x4F5C, 0x5DF2, 0x53D6, 0x6D88, 0x3002, 0x8BF7, 0x9009, 0x62E9,
                                 0x4E00, 0x4E2A, 0x5305, 0x542B] @ ascii ''CSV'' @
                                [0x6587, 0x4EF6, 0x6216, 0x6570, 0x636E, 0x5B58, 0x50A8, 0x7684, 0x9879,
                                 0x76EE, 0x76EE, 0x5F55, 0x3002]) 5000) self2)"

text \<open>
  A trace respects the order "connect, then start" when, at every \<open>Worker_start\<close>, each of
  the four signals of the worker has been connected to its slot earlier in the trace.
\<close>

fun connected_before_start :: "(signal \<times> slot) list \<Rightarrow> event list \<Rightarrow> bool" where
  "connected_before_start seen [] = True"
| "connected_before_start seen (Worker_connect sig handler # es) =
     connected_before_start ((sig, handler) # seen) es"
| "connected_before_start seen (Worker_start # es) =
     ((Progress, Update_progress) \<in> set seen \<and> (Log_message, Set_log_message) \<in> set seen \<and>
      (Finished, On_import_finished) \<in> set seen \<and> (Error, On_error) \<in> set seen \<and>
      connected_before_start seen es)"
| "connected_before_start seen (e # es) = connected_before_start seen es"

subsection \<open>A sample data manager and window\<close>

text \<open>
  The state of the sample data manager is the capacity of its cache. It has three frames,
  of which frame 1 cannot be read, its project directory is set up when its name is not
  empty, and it accepts every filter.
\<close>

definition sample_manager :: "int manager_api" where
  "sample_manager =
     \<lparr>time_variable = (\<lambda>dm. ascii ''t''),
      get_variables = (\<lambda>dm. [ascii ''u'']),
      global_stats = (\<lambda>dm. Map.empty),
      get_timeseries_at_point = (\<lambda>dm v p tol. Returns None),
      get_frame_count = (\<lambda>dm. 3),
      get_frame_data = (\<lambda>dm i cols. (if i = 1 then None else Some [(ascii ''u'', [1, 2])], dm)),
      get_frame_info = (\<lambda>dm i. Some [(ascii ''timestamp'', Number (1 / 2))]),
      get_cache_info = (\<lambda>dm. \<lparr>cache_size = 1, cache_max_size = dm\<rparr>),
      set_cache_size = (\<lambda>dm n. n),
      get_database_info =
        (\<lambda>dm. \<lparr>frame_count = Some 3, variables = Some [ascii ''u'', ascii ''v''],
               db_size_mb = None, zarr_size_mb = Some (25 / 2)\<rparr>),
      zarr_path = (\<lambda>dm. Some (ascii ''/p/data.zarr'')),
      db_path = (\<lambda>dm. Some (ascii ''/p/meta.db'')),
      setup_project_directory = (\<lambda>dm dir. (dir \<noteq> [], dm)),
      is_database_ready = (\<lambda>dm. 0 < dm),
      set_global_filter = (\<lambda>dm filter_text. Inr dm)\<rparr>"

definition sample_config :: config where
  "sample_config =
     \<lparr>heatmap = [(ascii ''enabled'', PyBool True)],
      contour = [(ascii ''enabled'', PyBool True), (ascii ''formula'', PyStr [])],
      vector = [(ascii ''enabled'', PyBool False), (ascii ''u_formula'', PyStr (ascii ''u'')),
                (ascii ''v_formula'', PyStr (ascii ''v''))]\<rparr>"

definition sample_window :: "int main_window" where
  "sample_window =
     \<lparr>data_manager = 0, project_dir = ascii ''/p'', output_dir = ascii ''/out'',
      current_frame_index = 0,
      time_slider = \<lparr>minimum = 0, maximum = 2, slider_value = 0\<rparr>,
      plot_widget =
        \<lparr>plot_data_frame = None,
         interpolated_results =
           Some [(ascii ''heatmap_data'', Some [[1]]), (ascii ''contour_data'', Some [[2]]),
                 (ascii ''vector_u_data'', None)],
         last_mouse_coords = None, picker_mode = None\<rparr>,
      frame_info_label = [], timestamp_label = [], cache_label = [],
      db_info_label_text = [], db_info_label_tool_tip = [],
      cache_size_spinbox = 100, draw_profile_btn = False,
      x_axis_formula = blank_line_edit, y_axis_formula = blank_line_edit,
      chart_title_edit = blank_line_edit, heatmap_formula = blank_line_edit,
      contour_formula = blank_line_edit, vector_u_formula = blank_line_edit,
      vector_v_formula = blank_line_edit, new_variable_formula_edit = sample_text_edit,
      filter_text_edit = sample_filter_edit, new_time_agg_formula_edit = sample_text_edit,
      filter_enabled_checkbox = True,
      current_config = sample_config,
      import_progress_dialog = None, import_worker = None, profile_dialog = None,
      events = []\<rparr>"

text \<open>A window on a data manager whose state is a frame cache holding one frame.\<close>

definition sample_cache_window :: "frame_cache main_window" where
  "sample_cache_window =
     \<lparr>data_manager = \<lparr>cached_frames = [(0, [(ascii ''u'', [1, 2])])], capacity = 10\<rparr>,
      project_dir = ascii ''/p'', output_dir = ascii ''/out'',
      current_frame_index = 0,
      time_slider = \<lparr>minimum = 0, maximum = 2, slider_value = 0\<rparr>,
      plot_widget =
        \<lparr>plot_data_frame = None, interpolated_results = None,
         last_mouse_coords = None, picker_mode = None\<rparr>,
      frame_info_label = [], timestamp_label = [], cache_label = [],
      db_info_label_text = [], db_info_label_tool_tip = [],
      cache_size_spinbox = 100, draw_profile_btn = False,
      x_axis_formula = blank_line_edit, y_axis_formula = blank_line_edit,
      chart_title_edit = blank_line_edit, heatmap_formula = blank_line_edit,
      contour_formula = blank_line_edit, vector_u_formula = blank_line_edit,
      vector_v_formula = blank_line_edit, new_variable_formula_edit = blank_line_edit,
      filter_text_edit = blank_line_edit, new_time_agg_formula_edit = blank_line_edit,
      filter_enabled_checkbox = False,
      current_config = sample_config,
      import_progress_dialog = None, import_worker = None, profile_dialog = None,
      events = []\<rparr>"

text \<open>
  A data manager over that frame cache. It knows three frames, reads none of them, and its
  database information has no key.
\<close>

definition sample_cache_manager :: "frame_cache manager_api" where
  "sample_cache_manager =
     with_frame_cache
       \<lparr>time_variable = (\<lambda>dm. ascii ''t''),
        get_variables = (\<lambda>dm. [ascii ''u'']),
        global_stats = (\<lambda>dm. Map.empty),
        get_timeseries_at_point = (\<lambda>dm v p tol. Returns None),
        get_frame_count = (\<lambda>dm. 3),
        get_frame_data = (\<lambda>dm i cols. (None, dm)),
        get_frame_info = (\<lambda>dm i. None),
        get_cache_info = frame_cache_info,
        set_cache_size = frame_cache_set_size,
        get_database_info =
          (\<lambda>dm. \<lparr>frame_count = None, variables = None, db_size_mb = None, zarr_size_mb = None\<rparr>),
        zarr_path = (\<lambda>dm. None),
        db_path = (\<lambda>dm. None),
        setup_project_directory = (\<lambda>dm dir. (True, dm)),
        is_database_ready = (\<lambda>dm. True),
        set_global_filter = (\<lambda>dm filter_text. Inr dm)\<rparr>"

section \<open>Properties of the time-series dialog\<close>

subsection \<open>NumPy operations\<close>


lemma np_diff_Cons2: "np_diff (x # y # zs) = (y - x) # np_diff (y # zs)"
  by (simp add: np_diff_def)

lemma length_np_diff: "length (np_diff a) = length a - 1"
  by (simp add: np_diff_def)

lemma increasing_iff_diffs_pos:
  "sorted_wrt (<) a \<longleftrightarrow> list_all (\<lambda>dt. dt > 0) (np_diff a)"
proof (induction a rule: induct_list012)
  case 1 show ?case by (simp add: np_diff_def)
next
  case (2 x) show ?case by (simp add: np_diff_def)
next
  case (3 x y zs)
  have "sorted_wrt (<) (x # y # zs) \<longleftrightarrow> x < y \<and> sorted_wrt (<) (y # zs)"
    by (rule sorted_wrt2) (simp add: transp_on_def)
  with 3 show ?case by (simp add: np_diff_Cons2)
qed

lemma list_ex_nonpos_iff: "list_ex (\<lambda>dt. dt \<le> (0::real)) ds \<longleftrightarrow> \<not> list_all (\<lambda>dt. dt > 0) ds"
  by (induction ds) auto

lemma sum_list_nonneg_real:
  "list_all (\<lambda>dt. dt > (0::real)) ds \<Longrightarrow> 0 \<le> sum_list ds"
  by (induction ds) auto

lemma sum_list_pos_real:
  "ds \<noteq> [] \<Longrightarrow> list_all (\<lambda>dt. dt > (0::real)) ds \<Longrightarrow> 0 < sum_list ds"
  using sum_list_nonneg_real by (cases ds) (auto intro: add_pos_nonneg)

lemma np_mean_pos:
  "ds \<noteq> [] \<Longrightarrow> list_all (\<lambda>dt. dt > (0::real)) ds \<Longrightarrow> 0 < np_mean ds"
  by (simp add: np_mean_def sum_list_pos_real)

lemma length_np_fft_fft: "length (np_fft_fft a) = length a"
  by (simp add: np_fft_fft_def Let_def)

lemma np_fft_fft_eq_Nil [simp]: "np_fft_fft a = [] \<longleftrightarrow> a = []"
  using length_np_fft_fft [of a] by (metis length_0_conv)

lemma np_fft_fftfreq_Inr:
  "n \<noteq> 0 \<Longrightarrow> d \<noteq> 0 \<Longrightarrow>
   np_fft_fftfreq n d =
     Inr (map (\<lambda>i. real_of_int i * (1 / (real n * d)))
            (map int [0..<(n - 1) div 2 + 1] @ map (\<lambda>j. int j - int (n div 2)) [0..<n div 2]))"
  by (simp add: np_fft_fftfreq_def Let_def)

lemma length_fftfreq:
  "np_fft_fftfreq n d = Inr freqs \<Longrightarrow> length freqs = n"
  by (auto simp: np_fft_fftfreq_def Let_def split: if_splits)


lemma plot_fft_success:
  assumes df: "current_df self = Some rows"
    and n: "2 \<le> length rows"
    and inc: "list_all (\<lambda>dt. dt > 0) (np_diff (map fst rows))"
    and fr: "np_fft_fftfreq (length rows) (np_mean (np_diff (map fst rows))) = Inr freqs"
  shows "plot_fft self =
     Inr (self\<lparr>yf := Some (np_fft_fft (map (\<lambda>s. s - np_mean (map snd rows)) (map snd rows))),
               xf := Some (take (length rows div 2) freqs),
               ax_fft := Curve (take (length rows div 2) freqs)
                 (map (\<lambda>y. 2 / real (length rows) * cmod y)
                    (take (length rows div 2)
                       (np_fft_fft (map (\<lambda>s. s - np_mean (map snd rows)) (map snd rows))))),
               export_fft_button_enabled := True\<rparr>)"
proof -
  from n have ne: "rows \<noteq> []" "\<not> length rows < 2" "length rows \<noteq> 0" by auto
  from n have dne: "np_diff (map fst rows) \<noteq> []"
    using length_np_diff [of "map fst rows"] by (cases "np_diff (map fst rows)") auto
  from inc have nex: "\<not> list_ex (\<lambda>dt. dt \<le> 0) (np_diff (map fst rows))"
    by (simp add: list_ex_nonpos_iff)
  from np_mean_pos [OF dne inc] have T: "np_mean (np_diff (map fst rows)) \<noteq> 0" by simp
  show ?thesis
    unfolding plot_fft_def using df ne nex T fr
    by (simp add: Let_def fft_amplitudes_def)
qed




lemma cis_minus_npi: "cis (- (pi * real n)) = (- 1) ^ n"
proof -
  have "cis (- (pi * real n)) = cnj (cis (pi * real n))" by (simp add: cis_cnj)
  also have "cis (pi * real n) = complex_of_real ((- 1) ^ n)"
    by (simp add: complex_eq_iff cos_npi2 sin_npi2)
  finally show ?thesis by simp
qed

lemma cis_minus_pi_numeral: "cis (- (pi * numeral w)) = (- 1) ^ numeral w"
  using cis_minus_npi [of "numeral w"] by simp

lemma cis_minus_pi: "cis (- pi) = - 1"
  using cis_minus_npi [of 1] by simp

lemma sample_spectrum: "np_fft_fft [1, 0, - 1, 0] = [0, 2, 0, 2]"
  by (simp add: np_fft_fft_def Let_def upt_rec lessThan_nat_numeral lessThan_Suc
        cis_minus_pi_numeral cis_minus_pi)

lemma sample_mean_step: "np_mean (np_diff (map fst sample_rows)) = 1"
  by (simp add: sample_rows_def np_mean_def np_diff_def)

lemma sample_mean_signal: "np_mean (map snd sample_rows) = 0"
  by (simp add: sample_rows_def np_mean_def)

lemma sample_freqs: "np_fft_fftfreq 4 1 = Inr [0, 1 / 4, - (1 / 2), - (1 / 4)]"
  by (simp add: np_fft_fftfreq_def Let_def upt_rec)



subsection \<open>The FFT button and the guards of plot_fft\<close>

lemma plot_fft_refused:
  assumes "\<not> fft_reached self"
  shows "\<exists>self'. plot_fft self = Inr self' \<and> xf self' = xf self \<and> yf self' = yf self \<and>
           (ax_fft self' = ax_fft self \<or> (\<exists>m. ax_fft self' = Message m))"
  using assms unfolding plot_fft_def fft_reached_def
  by (auto simp: Let_def split: option.splits)

lemma plot_fft_reached:
  assumes "fft_reached self"
  shows "\<exists>rows freqs. current_df self = Some rows \<and> 2 \<le> length rows \<and>
           np_fft_fftfreq (length rows) (np_mean (np_diff (map fst rows))) = Inr freqs \<and>
           plot_fft self =
             Inr (self\<lparr>yf := Some (np_fft_fft (map (\<lambda>s. s - np_mean (map snd rows)) (map snd rows))),
                       xf := Some (take (length rows div 2) freqs),
                       ax_fft := Curve (take (length rows div 2) freqs)
                         (map (\<lambda>y. 2 / real (length rows) * cmod y)
                            (take (length rows div 2)
                               (np_fft_fft (map (\<lambda>s. s - np_mean (map snd rows)) (map snd rows))))),
                       export_fft_button_enabled := True\<rparr>)"
proof -
  from assms obtain rows where df: "current_df self = Some rows" and n: "2 \<le> length rows"
    and nex: "\<not> list_ex (\<lambda>dt. dt \<le> 0) (np_diff (map fst rows))"
    and T: "np_mean (np_diff (map fst rows)) \<noteq> 0"
    by (auto simp: fft_reached_def split: option.splits)
  from n have n0: "length rows \<noteq> 0" by auto
  from np_fft_fftfreq_Inr [OF n0 T] obtain freqs where
    fr: "np_fft_fftfreq (length rows) (np_mean (np_diff (map fst rows))) = Inr freqs" by blast
  from nex have inc: "list_all (\<lambda>dt. dt > 0) (np_diff (map fst rows))"
    by (simp add: list_ex_nonpos_iff)
  from plot_fft_success [OF df n inc fr] df n fr show ?thesis by blast
qed

lemma plot_fft_total: "\<exists>self'. plot_fft self = Inr self'"
  using plot_fft_refused [of self] plot_fft_reached [of self] by (cases "fft_reached self") blast+

lemma plot_data_fft_button:
  assumes "currentText (variable_combo self) \<noteq> []"
  shows "fft_button_enabled (plot_data api dm self) \<longleftrightarrow>
     (\<exists>rows. get_timeseries_at_point api dm (currentText (variable_combo self)) (point_coords self)
               (tolerance api dm) = Returns (Some rows) \<and>
             rows \<noteq> [] \<and> 1 < length rows \<and> sorted_wrt (<) (map fst rows))"
  using assms unfolding plot_data_def
  by (auto simp: Let_def increasing_iff_diffs_pos split: outcome.splits option.splits)

lemma plot_data_combo [simp]:
  "variable_combo (plot_data api dm self) = variable_combo self"
  unfolding plot_data_def by (auto simp: Let_def split: outcome.splits option.splits)

lemma plot_data_no_selection:
  "currentText (variable_combo self) = [] \<Longrightarrow> plot_data api dm self = self"
  by (simp add: plot_data_def)

lemma plot_fft_combo:
  "plot_fft self = Inr self' \<Longrightarrow>
   variable_combo self' = variable_combo self \<and> fft_button_enabled self' = fft_button_enabled self"
  using plot_fft_refused [of self] plot_fft_reached [of self]
  unfolding plot_fft_def
  by (auto simp: Let_def split: option.splits if_splits sum.splits)

text \<open>
  While no variable is selected the FFT button is disabled, provided no variable has the
  empty name.
\<close>

lemma no_selection_button_disabled:
  assumes "dialog_run api self recent" and "[] \<notin> set (items (variable_combo self))"
    and "currentText (variable_combo self) = []"
  shows "\<not> fft_button_enabled self"
  using assms
proof (induction rule: dialog_run.induct)
  case (constructed dm coords)
  then show ?case
    by (simp add: TimeSeriesDialog_def Let_def plot_data_no_selection currentText_def split: if_splits)
next
  case (replotted self recent dm)
  then show ?case by (simp add: plot_data_no_selection)
next
  case (selected self recent i dm)
  from selected.hyps(2,3) have "nat i < length (items (variable_combo self))" by simp
  then have "items (variable_combo self) ! nat i \<in> set (items (variable_combo self))"
    by (rule nth_mem)
  with selected.prems(1) have "items (variable_combo self) ! nat i \<noteq> []"
    by (auto simp: select_variable_def)
  with selected.hyps(2,3)
  have "currentText (variable_combo (select_variable api dm i self)) \<noteq> []"
    by (simp add: select_variable_def currentText_def)
  with selected.prems(2) show ?case by simp
next
  case (fft_plotted self recent self' freqs amplitudes)
  then show ?case using plot_fft_combo [of self self'] by simp
next
  case (fft_refused self recent self')
  then show ?case using plot_fft_combo [of self self'] by simp
qed

text \<open>
  Claim C2, as amended. A call of \<open>plot_data\<close> with no variable selected returns at once
  and changes nothing, the FFT button included. After every other call of \<open>plot_data\<close>
  the FFT button is enabled if and only if a time series was retrieved that is not
  \<open>None\<close>, not empty, has more than one row and a strictly increasing time column.
  \<open>plot_fft\<close> returns without computing a transform (the stored spectrum is untouched and no
  new curve is drawn) whenever there are fewer than two samples, a successive time
  difference is not positive, or the mean time step is zero; and no call of \<open>plot_fft\<close>
  divides by zero.
\<close>

theorem fft_button_and_guards:
  "(currentText (variable_combo self) = [] \<longrightarrow> plot_data api dm self = self) \<and>
   (currentText (variable_combo self) \<noteq> [] \<longrightarrow>
      (fft_button_enabled (plot_data api dm self) \<longleftrightarrow>
         (\<exists>rows. get_timeseries_at_point api dm (currentText (variable_combo self))
                    (point_coords self) (tolerance api dm) = Returns (Some rows) \<and>
                 rows \<noteq> [] \<and> 1 < length rows \<and> sorted_wrt (<) (map fst rows)))) \<and>
   (\<forall>rows. current_df self = Some rows \<and>
           (length rows < 2 \<or> list_ex (\<lambda>dt. dt \<le> 0) (np_diff (map fst rows)) \<or>
            np_mean (np_diff (map fst rows)) = 0) \<longrightarrow>
           (\<exists>self'. plot_fft self = Inr self' \<and> xf self' = xf self \<and> yf self' = yf self \<and>
              (\<forall>freqs amplitudes. ax_fft self' = Curve freqs amplitudes \<longrightarrow>
                  ax_fft self = Curve freqs amplitudes))) \<and>
   (current_df self = None \<longrightarrow> plot_fft self = Inr self) \<and>
   plot_fft self \<noteq> Inl ZeroDivisionError"
proof (intro conjI allI impI)
  assume "currentText (variable_combo self) = []"
  then show "plot_data api dm self = self" by (rule plot_data_no_selection)
next
  assume "currentText (variable_combo self) \<noteq> []"
  then show "fft_button_enabled (plot_data api dm self) \<longleftrightarrow>
         (\<exists>rows. get_timeseries_at_point api dm (currentText (variable_combo self))
                    (point_coords self) (tolerance api dm) = Returns (Some rows) \<and>
                 rows \<noteq> [] \<and> 1 < length rows \<and> sorted_wrt (<) (map fst rows))"
    by (rule plot_data_fft_button)
next
  fix rows
  assume h: "current_df self = Some rows \<and>
     (length rows < 2 \<or> list_ex (\<lambda>dt. dt \<le> 0) (np_diff (map fst rows)) \<or>
      np_mean (np_diff (map fst rows)) = 0)"
  then have "\<not> fft_reached self" by (auto simp: fft_reached_def)
  from plot_fft_refused [OF this]
  show "\<exists>self'. plot_fft self = Inr self' \<and> xf self' = xf self \<and> yf self' = yf self \<and>
          (\<forall>freqs amplitudes. ax_fft self' = Curve freqs amplitudes \<longrightarrow>
              ax_fft self = Curve freqs amplitudes)"
    by auto
next
  assume "current_df self = None"
  then show "plot_fft self = Inr self" by (simp add: plot_fft_def)
next
  show "plot_fft self \<noteq> Inl ZeroDivisionError"
    using plot_fft_total [of self] by auto
qed

lemma sample_constructed_early:
  "TimeSeriesDialog sample_api False (0, 0) =
     \<lparr>point_coords = (0, 0), current_df = Some [(0, 1)],
      variable_combo = \<lparr>items = [ascii ''u''], current_index = 0\<rparr>,
      fft_button_enabled = False, export_fft_button_enabled = False,
      ax_time = Curve [0] [1], ax_fft = Cleared, xf = None, yf = None\<rparr>"
  by (simp add: TimeSeriesDialog_def sample_api_def plot_data_def currentText_def ascii_def
        np_diff_def Let_def)

lemma sample_constructed: "TimeSeriesDialog sample_api True (0, 0) = sample_dialog"
  by (simp add: TimeSeriesDialog_def sample_api_def plot_data_def currentText_def ascii_def
        np_diff_def Let_def sample_dialog_def sample_rows_def)

text \<open>
  The dialog on the data manager with an unnamed variable, after its construction and
  after the unnamed variable has been chosen in it.
\<close>

lemma sample_unnamed_constructed:
  "TimeSeriesDialog sample_api_unnamed True (0, 0) =
     sample_dialog\<lparr>variable_combo := \<lparr>items = [ascii ''u'', []], current_index = 0\<rparr>\<rparr>"
  by (simp add: TimeSeriesDialog_def sample_api_unnamed_def plot_data_def currentText_def ascii_def
        np_diff_def Let_def sample_dialog_def sample_rows_def)

lemma sample_unnamed_selected:
  "select_variable sample_api_unnamed True 1 (TimeSeriesDialog sample_api_unnamed True (0, 0)) =
     sample_dialog\<lparr>variable_combo := \<lparr>items = [ascii ''u'', []], current_index = 1\<rparr>\<rparr>"
  by (simp add: sample_unnamed_constructed select_variable_def plot_data_def currentText_def)

theorem fft_button_and_guards_witness:
  "currentText (variable_combo (TimeSeriesDialog sample_api False (0, 0))) \<noteq> [] \<and>
   \<not> fft_button_enabled (TimeSeriesDialog sample_api False (0, 0)) \<and>
   fft_button_enabled (plot_data sample_api True (TimeSeriesDialog sample_api False (0, 0))) \<and>
   current_df (TimeSeriesDialog sample_api False (0, 0)) = Some [(0, 1)] \<and>
   plot_fft (TimeSeriesDialog sample_api False (0, 0)) = Inr (TimeSeriesDialog sample_api False (0, 0)) \<and>
   currentText (variable_combo
      (select_variable sample_api_unnamed True 1 (TimeSeriesDialog sample_api_unnamed True (0, 0)))) = [] \<and>
   plot_data sample_api_unnamed True
      (select_variable sample_api_unnamed True 1 (TimeSeriesDialog sample_api_unnamed True (0, 0))) =
     select_variable sample_api_unnamed True 1 (TimeSeriesDialog sample_api_unnamed True (0, 0))"
proof -
  let ?d = "TimeSeriesDialog sample_api False (0, 0)"
  let ?u = "select_variable sample_api_unnamed True 1 (TimeSeriesDialog sample_api_unnamed True (0, 0))"
  have sel: "currentText (variable_combo ?d) \<noteq> []"
    by (simp add: sample_constructed_early currentText_def ascii_def)
  have fetch: "get_timeseries_at_point sample_api True (currentText (variable_combo ?d))
      (point_coords ?d) (tolerance sample_api True) = Returns (Some sample_rows)"
    by (simp add: sample_api_def)
  have ok: "sample_rows \<noteq> [] \<and> 1 < length sample_rows \<and> sorted_wrt (<) (map fst sample_rows)"
    by (simp add: sample_rows_def)
  from fft_button_and_guards [of ?d sample_api True] sel fetch ok
  have a: "fft_button_enabled (plot_data sample_api True ?d)" by auto
  have df: "current_df ?d = Some [(0, 1)]" by (simp add: sample_constructed_early)
  have b: "plot_fft ?d = Inr ?d"
    by (simp add: sample_constructed_early plot_fft_def)
  have c: "\<not> fft_button_enabled ?d" by (simp add: sample_constructed_early)
  have none: "currentText (variable_combo ?u) = []"
    by (simp add: sample_unnamed_selected currentText_def)
  from fft_button_and_guards [of ?u sample_api_unnamed True] none
  have e: "plot_data sample_api_unnamed True ?u = ?u" by blast
  from sel a b c df none e show ?thesis by blast
qed

text \<open>
  Claim C2 as stated fails after a call of \<open>plot_data\<close> that has no variable to plot. The
  dialog below is reached by constructing it on a data manager with the variables \<open>u\<close>
  and an unnamed one, and choosing the unnamed variable: the button was enabled for
  \<open>u\<close>, the data manager has no time series for the selected variable, and after the
  call the button is still enabled.
\<close>

theorem unselected_plot_data_keeps_button:
  "dialog_run sample_api_unnamed
     (select_variable sample_api_unnamed True 1 (TimeSeriesDialog sample_api_unnamed True (0, 0)))
     None \<and>
   get_timeseries_at_point sample_api_unnamed True
     (currentText (variable_combo
        (select_variable sample_api_unnamed True 1 (TimeSeriesDialog sample_api_unnamed True (0, 0)))))
     (0, 0) (tolerance sample_api_unnamed True) = Returns None \<and>
   fft_button_enabled
     (plot_data sample_api_unnamed True
        (select_variable sample_api_unnamed True 1 (TimeSeriesDialog sample_api_unnamed True (0, 0))))"
proof -
  let ?c = "TimeSeriesDialog sample_api_unnamed True (0, 0)"
  have start: "dialog_run sample_api_unnamed ?c None" by (rule constructed)
  have "(1::int) < int (length (items (variable_combo ?c)))"
    by (simp add: sample_unnamed_constructed)
  with start have run: "dialog_run sample_api_unnamed (select_variable sample_api_unnamed True 1 ?c) None"
    by (intro selected) simp_all
  have fetch: "get_timeseries_at_point sample_api_unnamed True
     (currentText (variable_combo (select_variable sample_api_unnamed True 1 ?c)))
     (0, 0) (tolerance sample_api_unnamed True) = Returns None"
    unfolding sample_unnamed_selected
    by (simp add: currentText_def sample_api_unnamed_def)
  have button: "fft_button_enabled
     (plot_data sample_api_unnamed True (select_variable sample_api_unnamed True 1 ?c))"
    unfolding sample_unnamed_selected
    by (simp add: plot_data_def currentText_def sample_dialog_def)
  from run fetch button show ?thesis by blast
qed

subsection \<open>The exported table and the plotted curve\<close>

lemma plot_data_spectrum [simp]:
  "xf (plot_data api dm self) = xf self" "yf (plot_data api dm self) = yf self"
  unfolding plot_data_def by (auto simp: Let_def split: outcome.splits option.splits)

lemma dialog_run_spectrum:
  assumes "dialog_run api self recent"
  shows "case recent of
           None \<Rightarrow> xf self = None \<and> yf self = None
         | Some (freqs, amplitudes) \<Rightarrow>
             \<exists>spectrum. xf self = Some freqs \<and> yf self = Some spectrum \<and>
               fft_amplitudes (length spectrum) spectrum = Inr amplitudes \<and>
               length freqs = length amplitudes"
  using assms
proof (induction rule: dialog_run.induct)
  case (constructed dm coords)
  show ?case by (simp add: TimeSeriesDialog_def Let_def)
next
  case (replotted self recent dm)
  then show ?case by (simp split: option.splits prod.splits)
next
  case (selected self recent i dm)
  then show ?case by (simp add: select_variable_def split: option.splits prod.splits)
next
  case (fft_plotted self recent self' freqs amplitudes)
  from plot_fft_reached [OF fft_plotted.hyps(2)] obtain rows fs where
    n: "2 \<le> length rows" and
    fr: "np_fft_fftfreq (length rows) (np_mean (np_diff (map fst rows))) = Inr fs" and
    run: "plot_fft self =
             Inr (self\<lparr>yf := Some (np_fft_fft (map (\<lambda>s. s - np_mean (map snd rows)) (map snd rows))),
                       xf := Some (take (length rows div 2) fs),
                       ax_fft := Curve (take (length rows div 2) fs)
                         (map (\<lambda>y. 2 / real (length rows) * cmod y)
                            (take (length rows div 2)
                               (np_fft_fft (map (\<lambda>s. s - np_mean (map snd rows)) (map snd rows))))),
                       export_fft_button_enabled := True\<rparr>)"
    by blast
  from n have n0: "length rows \<noteq> 0" by auto
  from fr have "length fs = length rows" by (rule length_fftfreq)
  with run fft_plotted.hyps(3,4) n0 show ?case
    by (auto simp: fft_amplitudes_def length_np_fft_fft)
next
  case (fft_refused self recent self')
  from plot_fft_refused [OF fft_refused.hyps(2)] fft_refused.hyps(3)
  have "xf self' = xf self" "yf self' = yf self" by auto
  with fft_refused.IH show ?case by (simp split: option.splits prod.splits)
qed

text \<open>
  Claim C6. The table that \<open>export_fft_results_csv\<close> writes, with the columns
  \<open>Frequency (Hz)\<close> and \<open>Amplitude\<close>, holds exactly the frequencies and amplitudes
  that the most recent successful call of \<open>plot_fft\<close> plotted; before any successful
  call there is nothing to export.
\<close>

theorem export_matches_recent_plot:
  assumes "dialog_run api self recent"
  shows "export_fft_results_csv self =
     (case recent of
        None \<Rightarrow> No_fft_results
      | Some (freqs, amplitudes) \<Rightarrow>
          Exported [(ascii ''Frequency (Hz)'', freqs), (ascii ''Amplitude'', amplitudes)])"
  using dialog_run_spectrum [OF assms]
  by (auto simp: export_fft_results_csv_def Let_def split: option.splits prod.splits)

lemma sample_plot_fft:
  "plot_fft sample_dialog =
     Inr (sample_dialog\<lparr>yf := Some [0, 2, 0, 2], xf := Some [0, 1 / 4],
                        ax_fft := Curve [0, 1 / 4] [0, 1],
                        export_fft_button_enabled := True\<rparr>)"
proof -
  have sig: "map (\<lambda>s. s - np_mean (map snd sample_rows)) (map snd sample_rows) = [1, 0, - 1, 0]"
    by (simp add: sample_mean_signal) (simp add: sample_rows_def)
  have df: "current_df sample_dialog = Some sample_rows" by (simp add: sample_dialog_def)
  have n: "2 \<le> length sample_rows" by (simp add: sample_rows_def)
  have inc: "list_all (\<lambda>dt. dt > 0) (np_diff (map fst sample_rows))"
    by (simp add: sample_rows_def np_diff_def)
  have len: "length sample_rows = 4" by (simp add: sample_rows_def)
  have fr: "np_fft_fftfreq (length sample_rows) (np_mean (np_diff (map fst sample_rows)))
      = Inr [0, 1 / 4, - (1 / 2), - (1 / 4)]"
    by (simp add: len sample_mean_step sample_freqs)
  from plot_fft_success [OF df n inc fr, unfolded sig sample_spectrum len] show ?thesis
    by simp
qed

theorem export_matches_recent_plot_witness:
  "dialog_run sample_api
     (sample_dialog\<lparr>yf := Some [0, 2, 0, 2], xf := Some [0, 1 / 4],
                    ax_fft := Curve [0, 1 / 4] [0, 1], export_fft_button_enabled := True\<rparr>)
     (Some ([0, 1 / 4], [0, 1])) \<and>
   export_fft_results_csv
     (sample_dialog\<lparr>yf := Some [0, 2, 0, 2], xf := Some [0, 1 / 4],
                    ax_fft := Curve [0, 1 / 4] [0, 1], export_fft_button_enabled := True\<rparr>) =
     Exported [(ascii ''Frequency (Hz)'', [0, 1 / 4]), (ascii ''Amplitude'', [0, 1])]"
proof -
  let ?d = "sample_dialog\<lparr>yf := Some [0, 2, 0, 2], xf := Some [0, 1 / 4],
                    ax_fft := Curve [0, 1 / 4] [0, 1], export_fft_button_enabled := True\<rparr>"
  have "dialog_run sample_api (TimeSeriesDialog sample_api True (0, 0)) None"
    by (rule constructed)
  then have start: "dialog_run sample_api sample_dialog None"
    by (simp add: sample_constructed)
  have reached: "fft_reached sample_dialog"
    by (simp add: fft_reached_def sample_dialog_def sample_mean_step)
       (simp add: sample_rows_def np_diff_def)
  have run: "dialog_run sample_api ?d (Some ([0, 1 / 4], [0, 1]))"
    by (rule fft_plotted [OF start reached sample_plot_fft]) simp
  from export_matches_recent_plot [OF run] run show ?thesis by simp
qed


section \<open>Properties of the main window\<close>

subsection \<open>Events\<close>

lemma emit_kept [simp]:
  "data_manager (emit ev self) = data_manager self"
  "current_frame_index (emit ev self) = current_frame_index self"
  "time_slider (emit ev self) = time_slider self"
  "plot_widget (emit ev self) = plot_widget self"
  "cache_label (emit ev self) = cache_label self"
  "import_progress_dialog (emit ev self) = import_progress_dialog self"
  "import_worker (emit ev self) = import_worker self"
  "profile_dialog (emit ev self) = profile_dialog self"
  "events (emit ev self) = events self @ [ev]"
  by (simp_all add: emit_def)

subsection \<open>Validation of the formula editors\<close>

lemma check_line_eq:
  "check_line v (all_valid, errors, calls) l =
     (if is_formula_line l then
        (if fst (v l) then (all_valid, errors, calls @ [l])
         else (False, [line_error l (snd (v l))], calls @ [l]))
      else (all_valid, errors, calls))"
  by (cases "v l") (simp add: check_line_def)

lemma foldl_check_line:
  "foldl (check_line v) (all_valid, errors, calls) ls =
     (let checked = filter is_formula_line ls;
          bad = filter (\<lambda>s. \<not> fst (v s)) checked
      in (if bad = [] then all_valid else False,
          if bad = [] then errors else [line_error (last bad) (snd (v (last bad)))],
          calls @ checked))"
proof (induction ls arbitrary: all_valid errors calls)
  case Nil
  show ?case by simp
next
  case (Cons l ls)
  show ?case
    by (simp add: check_line_eq Cons.IH Let_def)
qed

lemma validate_text_eq:
  "validate_text v editor =
     (let checked = (if is_line_edit editor then [editor_text editor]
                     else filter is_formula_line (split_lines (editor_text editor)));
          bad = filter (\<lambda>s. \<not> fst (v s)) checked
      in (bad = [],
          if bad = [] then []
          else if is_line_edit editor then [snd (v (last bad))]
          else [line_error (last bad) (snd (v (last bad)))],
          checked))"
  by (cases "v (editor_text editor)") (simp add: validate_text_def foldl_check_line Let_def)

lemma validate_editor_eq:
  "validate_editor v editor =
     (let checked = (if is_line_edit editor then [editor_text editor]
                     else filter is_formula_line (split_lines (editor_text editor)));
          bad = filter (\<lambda>s. \<not> fst (v s)) checked
      in editor\<lparr>style_sheet := (if bad = [] then [] else ascii ''background-color: #ffe0e0;''),
                tool_tip := (if bad = [] then []
                             else if is_line_edit editor then snd (v (last bad))
                             else line_error (last bad) (snd (v (last bad))))\<rparr>)"
  by (simp add: validate_editor_def validate_text_eq Let_def)

lemma validate_editor_kept [simp]:
  "editor_text (validate_editor v editor) = editor_text editor"
  "is_line_edit (validate_editor v editor) = is_line_edit editor"
  by (simp_all add: validate_editor_eq Let_def)

lemma get_all_validated:
  "get_all_formula_editors (validate_all_formulas v self) =
     map (validate_editor v) (get_all_formula_editors self)"
  by (simp add: get_all_formula_editors_def validate_all_formulas_def)

lemma validate_all_formulas_kept [simp]:
  "data_manager (validate_all_formulas v self) = data_manager self"
  "events (validate_all_formulas v self) = events self"
  "filter_enabled_checkbox (validate_all_formulas v self) = filter_enabled_checkbox self"
  "editor_text (filter_text_edit (validate_all_formulas v self)) = editor_text (filter_text_edit self)"
  by (simp_all add: validate_all_formulas_def)

lemma validate_all_formulas_emit:
  "validate_all_formulas v (emit e self) = emit e (validate_all_formulas v self)"
  by (simp add: validate_all_formulas_def emit_def)

lemma validate_all_formulas_data_manager:
  "validate_all_formulas v (self\<lparr>data_manager := dm\<rparr>) =
     (validate_all_formulas v self)\<lparr>data_manager := dm\<rparr>"
  by (simp add: validate_all_formulas_def)

lemma apply_global_filter_ignores_validation:
  "apply_global_filter api (validate_all_formulas v self) =
     validate_all_formulas v (apply_global_filter api self)"
proof -
  define t where "t = (if filter_enabled_checkbox self then editor_text (filter_text_edit self) else [])"
  have l: "(if filter_enabled_checkbox (validate_all_formulas v self)
            then editor_text (filter_text_edit (validate_all_formulas v self)) else []) = t"
    unfolding t_def by (simp only: validate_all_formulas_kept)
  have r: "(if filter_enabled_checkbox self then editor_text (filter_text_edit self) else []) = t"
    unfolding t_def by (rule refl)
  show ?thesis
  proof (cases "set_global_filter api (data_manager self) t")
    case (Inl e)
    then show ?thesis
      unfolding apply_global_filter_def Let_def l r
      by (simp only: validate_all_formulas_kept sum.case validate_all_formulas_emit)
  next
    case (Inr dm')
    show ?thesis
    proof (cases "t = []")
      case True
      with Inr show ?thesis
        unfolding apply_global_filter_def Let_def l r
        by (simp only: validate_all_formulas_kept sum.case validate_all_formulas_emit
              validate_all_formulas_data_manager if_False if_True not_True_eq_False simp_thms)
    next
      case False
      with Inr show ?thesis
        unfolding apply_global_filter_def Let_def l r
        by (simp only: validate_all_formulas_kept sum.case validate_all_formulas_emit
              validate_all_formulas_data_manager if_False if_True simp_thms)
    qed
  qed
qed

text \<open>
  Claim C3, as amended. \<open>_validate_all_formulas\<close> validates each of the ten formula
  editors of the main window. It checks with \<open>validate_syntax\<close> the whole text of a
  \<open>QLineEdit\<close>, be it empty or a comment, and of any other editor each line that is
  neither blank nor a comment. If every checked text is valid the style sheet is cleared
  and the tooltip emptied; if any is invalid the background becomes \<open>#ffe0e0\<close> and the
  tooltip carries the error message of an invalid text. The validation marks the editors
  and nothing else: applying the global filter hands the filter text to the data manager
  and has the same effects whether the editors have been validated or not.
\<close>

theorem validate_all_formulas_outcome:
  fixes validate_syntax :: validator and editor :: formula_editor
    and api :: "'dm manager_api" and self :: "'dm main_window"
  defines "checked \<equiv> snd (snd (validate_text validate_syntax editor))"
  defines "bad \<equiv> filter (\<lambda>s. \<not> fst (validate_syntax s)) checked"
  shows "get_all_formula_editors (validate_all_formulas validate_syntax self) =
           map (validate_editor validate_syntax) (get_all_formula_editors self) \<and>
         checked = (if is_line_edit editor then [editor_text editor]
                    else filter is_formula_line (split_lines (editor_text editor))) \<and>
         (bad = [] \<longrightarrow>
            validate_editor validate_syntax editor = editor\<lparr>style_sheet := [], tool_tip := []\<rparr>) \<and>
         (bad \<noteq> [] \<longrightarrow>
            (\<exists>s \<in> set bad.
               validate_editor validate_syntax editor =
                 editor\<lparr>style_sheet := ascii ''background-color: #ffe0e0;'',
                        tool_tip := (if is_line_edit editor then snd (validate_syntax s)
                                     else line_error s (snd (validate_syntax s)))\<rparr>)) \<and>
         data_manager (apply_global_filter api self) =
           (case set_global_filter api (data_manager self)
                   (if filter_enabled_checkbox self then editor_text (filter_text_edit self) else []) of
              Inl e \<Rightarrow> data_manager self
            | Inr dm' \<Rightarrow> dm') \<and>
         apply_global_filter api (validate_all_formulas validate_syntax self) =
           validate_all_formulas validate_syntax (apply_global_filter api self)"
proof (intro conjI impI)
  show "get_all_formula_editors (validate_all_formulas validate_syntax self) =
           map (validate_editor validate_syntax) (get_all_formula_editors self)"
    by (rule get_all_validated)
  show "checked = (if is_line_edit editor then [editor_text editor]
                    else filter is_formula_line (split_lines (editor_text editor)))"
    by (simp add: checked_def validate_text_eq Let_def)
  show "data_manager (apply_global_filter api self) =
           (case set_global_filter api (data_manager self)
                   (if filter_enabled_checkbox self then editor_text (filter_text_edit self) else []) of
              Inl e \<Rightarrow> data_manager self
            | Inr dm' \<Rightarrow> dm')"
    by (cases "filter_enabled_checkbox self")
       (simp_all add: apply_global_filter_def Let_def split: sum.splits)
  show "apply_global_filter api (validate_all_formulas validate_syntax self) =
           validate_all_formulas validate_syntax (apply_global_filter api self)"
    by (rule apply_global_filter_ignores_validation)
next
  assume "bad = []"
  then show "validate_editor validate_syntax editor = editor\<lparr>style_sheet := [], tool_tip := []\<rparr>"
    by (simp add: bad_def checked_def validate_text_eq validate_editor_eq Let_def)
next
  assume ne: "bad \<noteq> []"
  then have "last bad \<in> set bad" by simp
  moreover from ne have "validate_editor validate_syntax editor =
      editor\<lparr>style_sheet := ascii ''background-color: #ffe0e0;'',
             tool_tip := (if is_line_edit editor then snd (validate_syntax (last bad))
                          else line_error (last bad) (snd (validate_syntax (last bad))))\<rparr>"
    by (simp add: bad_def checked_def validate_text_eq validate_editor_eq Let_def)
  ultimately show "\<exists>s \<in> set bad.
      validate_editor validate_syntax editor =
        editor\<lparr>style_sheet := ascii ''background-color: #ffe0e0;'',
               tool_tip := (if is_line_edit editor then snd (validate_syntax s)
                            else line_error s (snd (validate_syntax s)))\<rparr>"
    by blast
qed

lemma strip_Nil [simp]: "strip [] = []"
  by (simp add: strip_def)

lemma sample_text_edit_checked:
  "snd (snd (validate_text reject_odd sample_text_edit)) = [ascii ''ab'', ascii ''xyz'']"
  by (simp add: validate_text_def check_line_def is_formula_line_def strip_def startswith_def
        py_isspace_def reject_odd_def sample_text_edit_def ascii_def)

lemma sample_text_edit_bad:
  "filter (\<lambda>s. \<not> fst (reject_odd s)) [ascii ''ab'', ascii ''xyz''] = [ascii ''xyz'']"
  by (simp add: reject_odd_def ascii_def)

lemma blank_line_edit_checked:
  "snd (snd (validate_text reject_odd blank_line_edit)) = [[]]"
  "filter (\<lambda>s. \<not> fst (reject_odd s)) [[]] = []"
  by (simp_all add: validate_text_def reject_odd_def blank_line_edit_def)

theorem validate_all_formulas_outcome_witness:
  "filter (\<lambda>s. \<not> fst (reject_odd s)) (snd (snd (validate_text reject_odd sample_text_edit))) \<noteq> [] \<and>
   validate_editor reject_odd sample_text_edit =
     sample_text_edit\<lparr>style_sheet := ascii ''background-color: #ffe0e0;'',
                       tool_tip := ascii ''Line '' @ [39] @ ascii ''xyz...'' @ [39] @ ascii '': odd''\<rparr> \<and>
   filter (\<lambda>s. \<not> fst (reject_odd s)) (snd (snd (validate_text reject_odd blank_line_edit))) = [] \<and>
   validate_editor reject_odd blank_line_edit = blank_line_edit \<and>
   new_variable_formula_edit (validate_all_formulas reject_odd sample_window) =
     validate_editor reject_odd sample_text_edit"
proof -
  have bad: "filter (\<lambda>s. \<not> fst (reject_odd s))
      (snd (snd (validate_text reject_odd sample_text_edit))) = [ascii ''xyz'']"
    by (simp only: sample_text_edit_checked sample_text_edit_bad)
  have kind: "\<not> is_line_edit sample_text_edit" by (simp add: sample_text_edit_def)
  from validate_all_formulas_outcome [where validate_syntax = reject_odd and editor = sample_text_edit,
      unfolded bad]
  have "\<exists>s \<in> set [ascii ''xyz''].
      validate_editor reject_odd sample_text_edit =
        sample_text_edit\<lparr>style_sheet := ascii ''background-color: #ffe0e0;'',
               tool_tip := (if is_line_edit sample_text_edit then snd (reject_odd s)
                            else line_error s (snd (reject_odd s)))\<rparr>"
    by blast
  with kind have a: "validate_editor reject_odd sample_text_edit =
     sample_text_edit\<lparr>style_sheet := ascii ''background-color: #ffe0e0;'',
                       tool_tip := ascii ''Line '' @ [39] @ ascii ''xyz...'' @ [39] @ ascii '': odd''\<rparr>"
    by (simp add: line_error_def reject_odd_def ascii_def)
  have good: "filter (\<lambda>s. \<not> fst (reject_odd s))
      (snd (snd (validate_text reject_odd blank_line_edit))) = []"
    by (simp only: blank_line_edit_checked)
  from validate_all_formulas_outcome [where validate_syntax = reject_odd and editor = blank_line_edit,
      unfolded good]
  have "validate_editor reject_odd blank_line_edit =
      blank_line_edit\<lparr>style_sheet := [], tool_tip := []\<rparr>"
    by blast
  then have b: "validate_editor reject_odd blank_line_edit = blank_line_edit"
    by (simp add: blank_line_edit_def)
  from validate_all_formulas_outcome [where validate_syntax = reject_odd and self = sample_window]
  have "get_all_formula_editors (validate_all_formulas reject_odd sample_window) =
      map (validate_editor reject_odd) (get_all_formula_editors sample_window)"
    by blast
  then have c: "new_variable_formula_edit (validate_all_formulas reject_odd sample_window) =
      validate_editor reject_odd sample_text_edit"
    by (simp add: get_all_formula_editors_def sample_window_def)
  from bad a good b c show ?thesis by simp
qed

text \<open>
  Claim C3 as stated fails in two places. An empty \<open>QLineEdit\<close> has no line that is
  non-empty and not a comment, yet its text is handed to \<open>validate_syntax\<close>, and a
  validator that rejects the empty text makes the editor red. And a filter text that the
  validator rejects is applied all the same: \<open>_apply_global_filter\<close> reports the filter
  as set and applied, and refreshes the plot.
\<close>

theorem blank_line_edit_is_checked:
  "claimed_checked_lines blank_line_edit = [] \<and>
   snd (snd (validate_text reject_blank blank_line_edit)) = [[]] \<and>
   style_sheet (validate_editor reject_blank blank_line_edit) = ascii ''background-color: #ffe0e0;'' \<and>
   tool_tip (validate_editor reject_blank blank_line_edit) = ascii ''empty formula'' \<and>
   \<not> fst (reject_odd (editor_text (filter_text_edit sample_window))) \<and>
   style_sheet (filter_text_edit (validate_all_formulas reject_odd sample_window)) =
     ascii ''background-color: #ffe0e0;'' \<and>
   (\<exists>title body message.
      events (apply_global_filter sample_manager (validate_all_formulas reject_odd sample_window)) =
        [Message_information title body, Refresh_plot, Status_message message 3000])"
proof -
  have a: "claimed_checked_lines blank_line_edit = [] \<and>
     snd (snd (validate_text reject_blank blank_line_edit)) = [[]] \<and>
     style_sheet (validate_editor reject_blank blank_line_edit) = ascii ''background-color: #ffe0e0;'' \<and>
     tool_tip (validate_editor reject_blank blank_line_edit) = ascii ''empty formula''"
    by (simp add: claimed_checked_lines_def blank_line_edit_def is_formula_line_def
          validate_text_def validate_editor_def reject_blank_def)
  have t: "filter_text_edit sample_window = sample_filter_edit"
    "filter_enabled_checkbox sample_window" "events sample_window = []"
    by (simp_all add: sample_window_def)
  have b: "\<not> fst (reject_odd (editor_text (filter_text_edit sample_window)))"
    by (simp add: t sample_filter_edit_def reject_odd_def ascii_def)
  have c: "style_sheet (filter_text_edit (validate_all_formulas reject_odd sample_window)) =
     ascii ''background-color: #ffe0e0;''"
    by (simp add: validate_all_formulas_def t validate_editor_def validate_text_def
          sample_filter_edit_def reject_odd_def ascii_def)
  have d: "\<exists>title body message.
      events (apply_global_filter sample_manager (validate_all_formulas reject_odd sample_window)) =
        [Message_information title body, Refresh_plot, Status_message message 3000]"
    by (simp add: apply_global_filter_def Let_def t sample_manager_def sample_filter_edit_def
          emit_def ascii_def)
  from a b c d show ?thesis by blast
qed


subsection \<open>Loading a frame\<close>

lemma update_frame_info_kept [simp]:
  "data_manager (update_frame_info api a s e self) = data_manager self"
  "current_frame_index (update_frame_info api a s e self) = current_frame_index self"
  "time_slider (update_frame_info api a s e self) = time_slider self"
  "plot_widget (update_frame_info api a s e self) = plot_widget self"
  "events (update_frame_info api a s e self) = events self"
  by (simp_all add: update_frame_info_def Let_def split: option.splits)

lemma load_frame_out_of_range:
  "\<not> (0 \<le> i \<and> i < get_frame_count api (data_manager self)) \<Longrightarrow> load_frame api i cols self = self"
  by (simp add: load_frame_def)

lemma load_frame_no_data:
  "0 \<le> i \<Longrightarrow> i < get_frame_count api (data_manager self) \<Longrightarrow>
   get_frame_data api (data_manager self) i cols = (None, dm') \<Longrightarrow>
   load_frame api i cols self = self\<lparr>data_manager := dm'\<rparr>"
  by (simp add: load_frame_def)

lemma load_frame_data:
  assumes "0 \<le> i" and "i < get_frame_count api (data_manager self)"
    and "get_frame_data api (data_manager self) i cols = (Some frame, dm')"
  shows "current_frame_index (load_frame api i cols self) = i"
    and "time_slider (load_frame api i cols self) = setValue (time_slider self) i"
    and "plot_widget (load_frame api i cols self) = update_data (plot_widget self) frame"
  using assms by (simp_all add: load_frame_def Let_def split: option.splits prod.splits)

text \<open>
  Claim C5. \<open>_load_frame\<close> returns at once, changing nothing, for a frame index outside
  \<open>[0, frame_count)\<close>; when the data manager returns \<open>None\<close> for the frame, nothing
  but the data manager itself can have changed: the current frame index, the time slider
  and the plot widget are as before. With an index in range and data, the index becomes the
  current frame index, the slider is set to it and the plot widget receives the data; the
  current frame index changes in no other case.
\<close>

theorem load_frame_guards:
  "(\<not> (0 \<le> i \<and> i < get_frame_count api (data_manager self)) \<longrightarrow>
      load_frame api i cols self = self) \<and>
   (0 \<le> i \<and> i < get_frame_count api (data_manager self) \<and>
    fst (get_frame_data api (data_manager self) i cols) = None \<longrightarrow>
      load_frame api i cols self =
        self\<lparr>data_manager := snd (get_frame_data api (data_manager self) i cols)\<rparr> \<and>
      current_frame_index (load_frame api i cols self) = current_frame_index self \<and>
      time_slider (load_frame api i cols self) = time_slider self \<and>
      plot_widget (load_frame api i cols self) = plot_widget self) \<and>
   (\<forall>frame. 0 \<le> i \<and> i < get_frame_count api (data_manager self) \<and>
      fst (get_frame_data api (data_manager self) i cols) = Some frame \<longrightarrow>
      current_frame_index (load_frame api i cols self) = i \<and>
      slider_value (time_slider (load_frame api i cols self)) =
        max (minimum (time_slider self)) (min (maximum (time_slider self)) i) \<and>
      plot_data_frame (plot_widget (load_frame api i cols self)) = Some frame) \<and>
   (current_frame_index (load_frame api i cols self) \<noteq> current_frame_index self \<longrightarrow>
      0 \<le> i \<and> i < get_frame_count api (data_manager self) \<and>
      fst (get_frame_data api (data_manager self) i cols) \<noteq> None)"
proof (intro conjI allI impI)
  assume "\<not> (0 \<le> i \<and> i < get_frame_count api (data_manager self))"
  then show "load_frame api i cols self = self" by (rule load_frame_out_of_range)
next
  assume h: "0 \<le> i \<and> i < get_frame_count api (data_manager self) \<and>
    fst (get_frame_data api (data_manager self) i cols) = None"
  then have g: "get_frame_data api (data_manager self) i cols =
      (None, snd (get_frame_data api (data_manager self) i cols))"
    by (metis prod.collapse)
  from h have r: "0 \<le> i" "i < get_frame_count api (data_manager self)" by simp_all
  have eq: "load_frame api i cols self =
      self\<lparr>data_manager := snd (get_frame_data api (data_manager self) i cols)\<rparr>"
    by (rule load_frame_no_data [OF r g])
  show "load_frame api i cols self =
      self\<lparr>data_manager := snd (get_frame_data api (data_manager self) i cols)\<rparr>" by (rule eq)
  show "current_frame_index (load_frame api i cols self) = current_frame_index self"
    by (simp add: eq)
  show "time_slider (load_frame api i cols self) = time_slider self" by (simp add: eq)
  show "plot_widget (load_frame api i cols self) = plot_widget self" by (simp add: eq)
next
  fix frame
  assume h: "0 \<le> i \<and> i < get_frame_count api (data_manager self) \<and>
    fst (get_frame_data api (data_manager self) i cols) = Some frame"
  then have g: "get_frame_data api (data_manager self) i cols =
      (Some frame, snd (get_frame_data api (data_manager self) i cols))"
    by (metis prod.collapse)
  from h have r: "0 \<le> i" "i < get_frame_count api (data_manager self)" by simp_all
  show "current_frame_index (load_frame api i cols self) = i"
    by (rule load_frame_data(1) [OF r g])
  show "slider_value (time_slider (load_frame api i cols self)) =
        max (minimum (time_slider self)) (min (maximum (time_slider self)) i)"
    by (simp add: load_frame_data(2) [OF r g] setValue_def)
  show "plot_data_frame (plot_widget (load_frame api i cols self)) = Some frame"
    by (simp add: load_frame_data(3) [OF r g] update_data_def)
next
  assume ch: "current_frame_index (load_frame api i cols self) \<noteq> current_frame_index self"
  show "0 \<le> i"
    using ch load_frame_out_of_range [of i api self cols] by (cases "0 \<le> i") auto
  show "i < get_frame_count api (data_manager self)"
    using ch load_frame_out_of_range [of i api self cols]
    by (cases "i < get_frame_count api (data_manager self)") auto
  show "fst (get_frame_data api (data_manager self) i cols) \<noteq> None"
  proof
    assume n: "fst (get_frame_data api (data_manager self) i cols) = None"
    show False
    proof (cases "0 \<le> i \<and> i < get_frame_count api (data_manager self)")
      case True
      then have r: "0 \<le> i" "i < get_frame_count api (data_manager self)" by simp_all
      from n have g: "get_frame_data api (data_manager self) i cols =
          (None, snd (get_frame_data api (data_manager self) i cols))"
        by (metis prod.collapse)
      from load_frame_no_data [OF r g] ch show False by simp
    next
      case False
      with ch load_frame_out_of_range [of i api self cols] show False by simp
    qed
  qed
qed


lemma sample_frame_count [simp]: "get_frame_count sample_manager dm = 3"
  by (simp add: sample_manager_def)

lemma sample_frame_data [simp]:
  "get_frame_data sample_manager dm i cols = (if i = 1 then None else Some [(ascii ''u'', [1, 2])], dm)"
  by (simp add: sample_manager_def)

theorem load_frame_guards_witness:
  "load_frame sample_manager 5 None sample_window = sample_window \<and>
   load_frame sample_manager 1 None sample_window = sample_window \<and>
   current_frame_index (load_frame sample_manager 2 None sample_window) = 2 \<and>
   slider_value (time_slider (load_frame sample_manager 2 None sample_window)) = 2 \<and>
   plot_data_frame (plot_widget (load_frame sample_manager 2 None sample_window)) =
     Some [(ascii ''u'', [1, 2])] \<and>
   current_frame_index (load_frame sample_manager 2 None sample_window) \<noteq>
     current_frame_index sample_window"
proof -
  have a: "load_frame sample_manager 5 None sample_window = sample_window"
    using load_frame_guards [of 5 sample_manager sample_window None] by simp
  have b: "load_frame sample_manager 1 None sample_window = sample_window"
    using load_frame_guards [of 1 sample_manager sample_window None] by simp
  have c: "current_frame_index (load_frame sample_manager 2 None sample_window) = 2 \<and>
      slider_value (time_slider (load_frame sample_manager 2 None sample_window)) = 2 \<and>
      plot_data_frame (plot_widget (load_frame sample_manager 2 None sample_window)) =
        Some [(ascii ''u'', [1, 2])]"
    using load_frame_guards [of 2 sample_manager sample_window None]
    by (simp add: sample_window_def)
  have d: "current_frame_index sample_window = 0" by (simp add: sample_window_def)
  from a b c d show ?thesis by simp
qed

subsection \<open>The cache label\<close>


lemma with_frame_cache_members [simp]:
  "get_cache_info (with_frame_cache base) = frame_cache_info"
  "set_cache_size (with_frame_cache base) = frame_cache_set_size"
  by (simp_all add: with_frame_cache_def)





subsection \<open>The database label\<close>

text \<open>
  Claim C10. The database label reports both halves of the store: its text shows the frame
  count, the number of variables, the size of the Zarr array store and the size of the
  SQLite metadata store from \<open>get_database_info\<close>, each taken as 0 (or as the empty
  list) when its key is absent, and its tooltip names \<open>zarr_path\<close> and \<open>db_path\<close>.
\<close>

theorem db_info_reports_both_stores:
  "db_info_label_text (update_db_info api self) =
     [0x5E27] @ ascii '': '' @
     str_int (case frame_count (get_database_info api (data_manager self)) of None \<Rightarrow> 0 | Some fc \<Rightarrow> fc) @
     ascii '' | '' @ [0x53D8, 0x91CF] @ ascii '': '' @
     str_int (case variables (get_database_info api (data_manager self)) of
                None \<Rightarrow> 0 | Some vs \<Rightarrow> int (length vs)) @
     ascii '' | '' @ [0x5927, 0x5C0F] @ ascii '': '' @
     format_fixed 2 (case zarr_size_mb (get_database_info api (data_manager self)) of
                       None \<Rightarrow> 0 | Some mb \<Rightarrow> mb) @
     ascii '' MB ('' @ [0x6570, 0x636E] @ ascii '') + '' @
     format_fixed 2 (case db_size_mb (get_database_info api (data_manager self)) of
                       None \<Rightarrow> 0 | Some mb \<Rightarrow> mb) @
     ascii '' MB ('' @ [0x5143, 0x6570, 0x636E] @ ascii '')'' \<and>
   db_info_label_tool_tip (update_db_info api self) =
     [0x6570, 0x636E] @ ascii '' (Zarr): '' @ str_optional (zarr_path api (data_manager self)) @
     [10, 0x5143, 0x6570, 0x636E] @ ascii '' (SQLite): '' @
     str_optional (db_path api (data_manager self))"
  by (simp add: update_db_info_def Let_def split: option.splits)

lemma sample_database_info: "get_database_info sample_manager dm =
   \<lparr>frame_count = Some 3, variables = Some [ascii ''u'', ascii ''v''],
               db_size_mb = None, zarr_size_mb = Some (25 / 2)\<rparr>"
  by (simp add: sample_manager_def)

lemma sample_paths:
  "str_optional (zarr_path sample_manager dm) = ascii ''/p/data.zarr''"
  "str_optional (db_path sample_manager dm) = ascii ''/p/meta.db''"
  by (simp_all add: sample_manager_def str_optional_def)

lemma sample_cache_database_info: "get_database_info sample_cache_manager dm =
   \<lparr>frame_count = None, variables = None, db_size_mb = None, zarr_size_mb = None\<rparr>"
  by (simp add: sample_cache_manager_def with_frame_cache_def)

lemma sample_cache_paths:
  "str_optional (zarr_path sample_cache_manager dm) = ascii ''None''"
  "str_optional (db_path sample_cache_manager dm) = ascii ''None''"
  by (simp_all add: sample_cache_manager_def with_frame_cache_def str_optional_def)

lemma sample_count_text: "str_int (int (length [ascii ''u'', ascii ''v''])) = ascii ''2''"
  by (simp add: str_int_def ascii_def)

lemma sample_frames_text: "str_int 3 = ascii ''3''"
  by (simp add: str_int_def ascii_def)

lemma sample_zero_text: "str_int 0 = ascii ''0''"
  by (simp add: str_int_def ascii_def)

lemma sample_zarr_text: "format_fixed 2 (25 / 2) = ascii ''12.50''"
  by (simp add: format_fixed_def round_half_even_def ascii_def Let_def)

lemma sample_db_text: "format_fixed 2 0 = ascii ''0.00''"
  by (simp add: format_fixed_def round_half_even_def ascii_def Let_def)

theorem db_info_reports_both_stores_witness:
  "db_info_label_text (update_db_info sample_manager sample_window) =
     [0x5E27] @ ascii '': 3 | '' @ [0x53D8, 0x91CF] @ ascii '': 2 | '' @ [0x5927, 0x5C0F] @
     ascii '': 12.50 MB ('' @ [0x6570, 0x636E] @ ascii '') + 0.00 MB ('' @
     [0x5143, 0x6570, 0x636E] @ ascii '')'' \<and>
   db_info_label_tool_tip (update_db_info sample_manager sample_window) =
     [0x6570, 0x636E] @ ascii '' (Zarr): /p/data.zarr'' @
     [10, 0x5143, 0x6570, 0x636E] @ ascii '' (SQLite): /p/meta.db'' \<and>
   db_info_label_text (update_db_info sample_cache_manager sample_cache_window) =
     [0x5E27] @ ascii '': 0 | '' @ [0x53D8, 0x91CF] @ ascii '': 0 | '' @ [0x5927, 0x5C0F] @
     ascii '': 0.00 MB ('' @ [0x6570, 0x636E] @ ascii '') + 0.00 MB ('' @
     [0x5143, 0x6570, 0x636E] @ ascii '')'' \<and>
   db_info_label_tool_tip (update_db_info sample_cache_manager sample_cache_window) =
     [0x6570, 0x636E] @ ascii '' (Zarr): None'' @
     [10, 0x5143, 0x6570, 0x636E] @ ascii '' (SQLite): None''"
proof -
  note a = db_info_reports_both_stores [of sample_manager sample_window,
      unfolded sample_database_info sample_paths database_info.simps option.case
        sample_count_text sample_frames_text sample_zarr_text sample_db_text]
  note b = db_info_reports_both_stores [of sample_cache_manager sample_cache_window,
      unfolded sample_cache_database_info sample_cache_paths database_info.simps option.case
        sample_zero_text sample_db_text]
  from a have a1: "db_info_label_text (update_db_info sample_manager sample_window) =
     [0x5E27] @ ascii '': 3 | '' @ [0x53D8, 0x91CF] @ ascii '': 2 | '' @ [0x5927, 0x5C0F] @
     ascii '': 12.50 MB ('' @ [0x6570, 0x636E] @ ascii '') + 0.00 MB ('' @
     [0x5143, 0x6570, 0x636E] @ ascii '')''"
    by (simp add: ascii_def)
  from a have a2: "db_info_label_tool_tip (update_db_info sample_manager sample_window) =
     [0x6570, 0x636E] @ ascii '' (Zarr): /p/data.zarr'' @
     [10, 0x5143, 0x6570, 0x636E] @ ascii '' (SQLite): /p/meta.db''"
    by (simp add: ascii_def)
  from b have b1: "db_info_label_text (update_db_info sample_cache_manager sample_cache_window) =
     [0x5E27] @ ascii '': 0 | '' @ [0x53D8, 0x91CF] @ ascii '': 0 | '' @ [0x5927, 0x5C0F] @
     ascii '': 0.00 MB ('' @ [0x6570, 0x636E] @ ascii '') + 0.00 MB ('' @
     [0x5143, 0x6570, 0x636E] @ ascii '')''"
    by (simp add: ascii_def)
  from b have b2: "db_info_label_tool_tip (update_db_info sample_cache_manager sample_cache_window) =
     [0x6570, 0x636E] @ ascii '' (Zarr): None'' @
     [10, 0x5143, 0x6570, 0x636E] @ ascii '' (SQLite): None''"
    by (simp add: ascii_def)
  from a1 a2 b1 b2 show ?thesis by (intro conjI)
qed


subsection \<open>Profile lines\<close>

lemma add_available_keys:
  "fst ` set (add_available results config available key) =
     fst ` set available \<union>
     (if (\<exists>g. map_of results (key @ ascii ''_data'') = Some (Some g)) \<and>
         truthy (layer_formula config key) then {key} else {})"
  by (auto simp: add_available_def Let_def split: option.splits)

lemma foldl_add_available_keys:
  "fst ` set (foldl (add_available results config) available keys) =
     fst ` set available \<union>
     {key \<in> set keys. (\<exists>g. map_of results (key @ ascii ''_data'') = Some (Some g)) \<and>
                        truthy (layer_formula config key)}"
proof (induction keys arbitrary: available)
  case Nil
  show ?case by simp
next
  case (Cons k ks)
  show ?case
    unfolding foldl_Cons Cons.IH add_available_keys by auto
qed

lemma add_available_lookup:
  assumes "key \<notin> fst ` set available"
  shows "map_of (add_available results config available key) k =
     (if k = key \<and> (\<exists>g. map_of results (key @ ascii ''_data'') = Some (Some g)) \<and>
         truthy (layer_formula config key)
      then Some (layer_formula config key) else map_of available k)"
proof -
  from assms have none: "map_of available key = None"
    by (simp add: map_of_eq_None_iff)
  show ?thesis
    by (auto simp: add_available_def Let_def map_add_def none split: option.splits)
qed

lemma foldl_add_available_lookup:
  "distinct keys \<Longrightarrow> set keys \<inter> fst ` set available = {} \<Longrightarrow>
   map_of (foldl (add_available results config) available keys) k =
     (if k \<in> set keys \<and> (\<exists>g. map_of results (k @ ascii ''_data'') = Some (Some g)) \<and>
         truthy (layer_formula config k)
      then Some (layer_formula config k) else map_of available k)"
proof (induction keys arbitrary: available)
  case Nil
  show ?case by simp
next
  case (Cons key ks)
  from Cons.prems have d: "distinct ks" and nk: "key \<notin> set ks"
    and fresh: "key \<notin> fst ` set available" and rest: "set ks \<inter> fst ` set available = {}"
    by auto
  have "set ks \<inter> fst ` set (add_available results config available key) = {}"
    using nk rest by (auto simp: add_available_keys split: if_splits)
  from Cons.IH [OF d this] show ?case
    using nk by (auto simp: add_available_lookup [OF fresh])
qed


lemma layer_formula_keys:
  "layer_formula config (ascii ''heatmap'') =
     (if truthy (dict_get (map_of (heatmap config)) (ascii ''enabled'') PyNone)
      then dict_get (map_of (heatmap config)) (ascii ''formula'') (PyStr (ascii ''heatmap''))
      else PyStr [])"
  "layer_formula config (ascii ''contour'') =
     (if truthy (dict_get (map_of (contour config)) (ascii ''enabled'') PyNone)
      then dict_get (map_of (contour config)) (ascii ''formula'') (PyStr (ascii ''contour''))
      else PyStr [])"
  "layer_formula config (ascii ''vector_u'') =
     (if truthy (dict_get (map_of (vector config)) (ascii ''enabled'') PyNone)
      then dict_get (map_of (vector config)) (ascii ''u_formula'') (PyStr (ascii ''vector_u''))
      else PyStr [])"
  "layer_formula config (ascii ''vector_v'') =
     (if truthy (dict_get (map_of (vector config)) (ascii ''enabled'') PyNone)
      then dict_get (map_of (vector config)) (ascii ''v_formula'') (PyStr (ascii ''vector_v''))
      else PyStr [])"
  by (simp_all add: layer_formula_def ascii_def)

lemma data_keys:
  "ascii ''heatmap'' @ ascii ''_data'' = ascii ''heatmap_data''"
  "ascii ''contour'' @ ascii ''_data'' = ascii ''contour_data''"
  "ascii ''vector_u'' @ ascii ''_data'' = ascii ''vector_u_data''"
  "ascii ''vector_v'' @ ascii ''_data'' = ascii ''vector_v_data''"
  by (simp_all add: ascii_def)

lemma profile_keys_distinct: "distinct profile_keys"
  by (simp add: profile_keys_def ascii_def)

lemma profile_keys_member:
  "ascii ''heatmap'' \<in> set profile_keys" "ascii ''contour'' \<in> set profile_keys"
  "ascii ''vector_u'' \<in> set profile_keys" "ascii ''vector_v'' \<in> set profile_keys"
  by (simp_all add: profile_keys_def)

lemma available_lookup:
  "map_of (foldl (add_available results config) [] profile_keys) k =
     (if k \<in> set profile_keys \<and> (\<exists>g. map_of results (k @ ascii ''_data'') = Some (Some g)) \<and>
         truthy (layer_formula config k)
      then Some (layer_formula config k) else None)"
  using foldl_add_available_lookup [OF profile_keys_distinct, of "[]" results config k] by simp

lemma uncheck_kept [simp]:
  "interpolated_results (plot_widget (uncheck_draw_profile_btn self)) =
     interpolated_results (plot_widget self)"
  "current_config (uncheck_draw_profile_btn self) = current_config self"
  "profile_dialog (uncheck_draw_profile_btn self) = profile_dialog self"
  "draw_profile_btn (uncheck_draw_profile_btn self) = False"
  by (auto simp: uncheck_draw_profile_btn_def Let_def emit_def)

lemma uncheck_output_dir [simp]:
  "output_dir (uncheck_draw_profile_btn self) = output_dir self"
  by (auto simp: uncheck_draw_profile_btn_def Let_def emit_def)

lemma on_profile_line_no_results:
  assumes "interpolated_results (plot_widget self) = None \<or>
           interpolated_results (plot_widget self) = Some []"
  shows "profile_dialog (on_profile_line_defined p q self) = profile_dialog self"
    and "\<exists>title body. events (on_profile_line_defined p q self) =
           events (uncheck_draw_profile_btn self) @ [Message_warning title body]"
  using assms
  by (auto simp: on_profile_line_defined_def Let_def)

lemma on_profile_line_results:
  assumes "interpolated_results (plot_widget self) = Some results" and "results \<noteq> []"
  shows "profile_dialog (on_profile_line_defined p q self) =
           Some \<lparr>start_point = p, end_point = q, profile_results = results,
                 available_data = foldl (add_available results (current_config self)) [] profile_keys,
                 profile_output_dir = output_dir self, profile_visible = True\<rparr>"
    and "events (on_profile_line_defined p q self) =
           events (uncheck_draw_profile_btn self) @
           (case profile_dialog self of
              None \<Rightarrow> []
            | Some d \<Rightarrow> if profile_visible d then [Profile_dialog_close] else []) @
           [Profile_dialog_show]"
  using assms
  by (auto simp: on_profile_line_defined_def Let_def emit_def split: option.splits)


lemma available_entry:
  assumes "k \<in> set profile_keys" and "k @ ascii ''_data'' = dk"
    and "layer_formula config k = (if en then f else PyStr [])"
  shows "map_of (foldl (add_available results config) [] profile_keys) k =
     (if (\<exists>g. map_of results dk = Some (Some g)) \<and> en \<and> truthy f then Some f else None)"
  using assms by (auto simp: available_lookup)

text \<open>
  Claim C4, as amended. When the plot widget has no interpolated results (\<open>None\<close> or an
  empty dictionary) a warning is shown and no profile dialog is opened. Otherwise a
  \<open>ProfilePlotDialog\<close> is opened and shown whose available data has no keys but
  \<open>heatmap\<close>, \<open>contour\<close>, \<open>vector_u\<close> and \<open>vector_v\<close>, and has an entry for
  such a key exactly when the layer's interpolated data is present and not \<open>None\<close>, the
  layer is enabled in the current configuration, and its formula is non-empty, where the
  key itself stands for a formula that the configuration does not give. The entry is that
  formula.
\<close>

theorem profile_line_outcome:
  "(interpolated_results (plot_widget self) = None \<or>
    interpolated_results (plot_widget self) = Some [] \<longrightarrow>
      profile_dialog (on_profile_line_defined p q self) = profile_dialog self \<and>
      (\<exists>title body. events (on_profile_line_defined p q self) =
         events (uncheck_draw_profile_btn self) @ [Message_warning title body])) \<and>
   (\<forall>results. interpolated_results (plot_widget self) = Some results \<and> results \<noteq> [] \<longrightarrow>
      (\<exists>d. profile_dialog (on_profile_line_defined p q self) = Some d \<and>
           profile_visible d \<and> start_point d = p \<and> end_point d = q \<and>
           profile_results d = results \<and>
           events (on_profile_line_defined p q self) =
             events (uncheck_draw_profile_btn self) @
             (case profile_dialog self of
                None \<Rightarrow> []
              | Some old \<Rightarrow> if profile_visible old then [Profile_dialog_close] else []) @
             [Profile_dialog_show] \<and>
           fst ` set (available_data d) \<subseteq> set profile_keys \<and>
           map_of (available_data d) (ascii ''heatmap'') =
             (if (\<exists>g. map_of results (ascii ''heatmap_data'') = Some (Some g)) \<and>
                 truthy (dict_get (map_of (heatmap (current_config self))) (ascii ''enabled'') PyNone) \<and>
                 truthy (dict_get (map_of (heatmap (current_config self))) (ascii ''formula'')
                           (PyStr (ascii ''heatmap'')))
              then Some (dict_get (map_of (heatmap (current_config self))) (ascii ''formula'')
                           (PyStr (ascii ''heatmap'')))
              else None) \<and>
           map_of (available_data d) (ascii ''contour'') =
             (if (\<exists>g. map_of results (ascii ''contour_data'') = Some (Some g)) \<and>
                 truthy (dict_get (map_of (contour (current_config self))) (ascii ''enabled'') PyNone) \<and>
                 truthy (dict_get (map_of (contour (current_config self))) (ascii ''formula'')
                           (PyStr (ascii ''contour'')))
              then Some (dict_get (map_of (contour (current_config self))) (ascii ''formula'')
                           (PyStr (ascii ''contour'')))
              else None) \<and>
           map_of (available_data d) (ascii ''vector_u'') =
             (if (\<exists>g. map_of results (ascii ''vector_u_data'') = Some (Some g)) \<and>
                 truthy (dict_get (map_of (vector (current_config self))) (ascii ''enabled'') PyNone) \<and>
                 truthy (dict_get (map_of (vector (current_config self))) (ascii ''u_formula'')
                           (PyStr (ascii ''vector_u'')))
              then Some (dict_get (map_of (vector (current_config self))) (ascii ''u_formula'')
                           (PyStr (ascii ''vector_u'')))
              else None) \<and>
           map_of (available_data d) (ascii ''vector_v'') =
             (if (\<exists>g. map_of results (ascii ''vector_v_data'') = Some (Some g)) \<and>
                 truthy (dict_get (map_of (vector (current_config self))) (ascii ''enabled'') PyNone) \<and>
                 truthy (dict_get (map_of (vector (current_config self))) (ascii ''v_formula'')
                           (PyStr (ascii ''vector_v'')))
              then Some (dict_get (map_of (vector (current_config self))) (ascii ''v_formula'')
                           (PyStr (ascii ''vector_v'')))
              else None)))"
proof (intro conjI allI impI)
  assume h: "interpolated_results (plot_widget self) = None \<or>
    interpolated_results (plot_widget self) = Some []"
  show "profile_dialog (on_profile_line_defined p q self) = profile_dialog self"
    by (rule on_profile_line_no_results(1) [OF h])
  show "\<exists>title body. events (on_profile_line_defined p q self) =
         events (uncheck_draw_profile_btn self) @ [Message_warning title body]"
    by (rule on_profile_line_no_results(2) [OF h])
next
  fix results
  assume h: "interpolated_results (plot_widget self) = Some results \<and> results \<noteq> []"
  then have r: "interpolated_results (plot_widget self) = Some results" and ne: "results \<noteq> []"
    by simp_all
  let ?d = "\<lparr>start_point = p, end_point = q, profile_results = results,
             available_data = foldl (add_available results (current_config self)) [] profile_keys,
             profile_output_dir = output_dir self, profile_visible = True\<rparr>"
  have keys: "fst ` set (available_data ?d) \<subseteq> set profile_keys"
    by (auto simp: foldl_add_available_keys)
  have e1: "map_of (available_data ?d) (ascii ''heatmap'') =
             (if (\<exists>g. map_of results (ascii ''heatmap_data'') = Some (Some g)) \<and>
                 truthy (dict_get (map_of (heatmap (current_config self))) (ascii ''enabled'') PyNone) \<and>
                 truthy (dict_get (map_of (heatmap (current_config self))) (ascii ''formula'')
                           (PyStr (ascii ''heatmap'')))
              then Some (dict_get (map_of (heatmap (current_config self))) (ascii ''formula'')
                           (PyStr (ascii ''heatmap'')))
              else None)"
    using available_entry [OF profile_keys_member(1) data_keys(1) layer_formula_keys(1)]
    by simp
  have e2: "map_of (available_data ?d) (ascii ''contour'') =
             (if (\<exists>g. map_of results (ascii ''contour_data'') = Some (Some g)) \<and>
                 truthy (dict_get (map_of (contour (current_config self))) (ascii ''enabled'') PyNone) \<and>
                 truthy (dict_get (map_of (contour (current_config self))) (ascii ''formula'')
                           (PyStr (ascii ''contour'')))
              then Some (dict_get (map_of (contour (current_config self))) (ascii ''formula'')
                           (PyStr (ascii ''contour'')))
              else None)"
    using available_entry [OF profile_keys_member(2) data_keys(2) layer_formula_keys(2)]
    by simp
  have e3: "map_of (available_data ?d) (ascii ''vector_u'') =
             (if (\<exists>g. map_of results (ascii ''vector_u_data'') = Some (Some g)) \<and>
                 truthy (dict_get (map_of (vector (current_config self))) (ascii ''enabled'') PyNone) \<and>
                 truthy (dict_get (map_of (vector (current_config self))) (ascii ''u_formula'')
                           (PyStr (ascii ''vector_u'')))
              then Some (dict_get (map_of (vector (current_config self))) (ascii ''u_formula'')
                           (PyStr (ascii ''vector_u'')))
              else None)"
    using available_entry [OF profile_keys_member(3) data_keys(3) layer_formula_keys(3)]
    by simp
  have e4: "map_of (available_data ?d) (ascii ''vector_v'') =
             (if (\<exists>g. map_of results (ascii ''vector_v_data'') = Some (Some g)) \<and>
                 truthy (dict_get (map_of (vector (current_config self))) (ascii ''enabled'') PyNone) \<and>
                 truthy (dict_get (map_of (vector (current_config self))) (ascii ''v_formula'')
                           (PyStr (ascii ''vector_v'')))
              then Some (dict_get (map_of (vector (current_config self))) (ascii ''v_formula'')
                           (PyStr (ascii ''vector_v'')))
              else None)"
    using available_entry [OF profile_keys_member(4) data_keys(4) layer_formula_keys(4)]
    by simp
  from on_profile_line_results [OF r ne, of p q] keys e1 e2 e3 e4
  show "\<exists>d. profile_dialog (on_profile_line_defined p q self) = Some d \<and>
           profile_visible d \<and> start_point d = p \<and> end_point d = q \<and>
           profile_results d = results \<and>
           events (on_profile_line_defined p q self) =
             events (uncheck_draw_profile_btn self) @
             (case profile_dialog self of
                None \<Rightarrow> []
              | Some old \<Rightarrow> if profile_visible old then [Profile_dialog_close] else []) @
             [Profile_dialog_show] \<and>
           fst ` set (available_data d) \<subseteq> set profile_keys \<and>
           map_of (available_data d) (ascii ''heatmap'') =
             (if (\<exists>g. map_of results (ascii ''heatmap_data'') = Some (Some g)) \<and>
                 truthy (dict_get (map_of (heatmap (current_config self))) (ascii ''enabled'') PyNone) \<and>
                 truthy (dict_get (map_of (heatmap (current_config self))) (ascii ''formula'')
                           (PyStr (ascii ''heatmap'')))
              then Some (dict_get (map_of (heatmap (current_config self))) (ascii ''formula'')
                           (PyStr (ascii ''heatmap'')))
              else None) \<and>
           map_of (available_data d) (ascii ''contour'') =
             (if (\<exists>g. map_of results (ascii ''contour_data'') = Some (Some g)) \<and>
                 truthy (dict_get (map_of (contour (current_config self))) (ascii ''enabled'') PyNone) \<and>
                 truthy (dict_get (map_of (contour (current_config self))) (ascii ''formula'')
                           (PyStr (ascii ''contour'')))
              then Some (dict_get (map_of (contour (current_config self))) (ascii ''formula'')
                           (PyStr (ascii ''contour'')))
              else None) \<and>
           map_of (available_data d) (ascii ''vector_u'') =
             (if (\<exists>g. map_of results (ascii ''vector_u_data'') = Some (Some g)) \<and>
                 truthy (dict_get (map_of (vector (current_config self))) (ascii ''enabled'') PyNone) \<and>
                 truthy (dict_get (map_of (vector (current_config self))) (ascii ''u_formula'')
                           (PyStr (ascii ''vector_u'')))
              then Some (dict_get (map_of (vector (current_config self))) (ascii ''u_formula'')
                           (PyStr (ascii ''vector_u'')))
              else None) \<and>
           map_of (available_data d) (ascii ''vector_v'') =
             (if (\<exists>g. map_of results (ascii ''vector_v_data'') = Some (Some g)) \<and>
                 truthy (dict_get (map_of (vector (current_config self))) (ascii ''enabled'') PyNone) \<and>
                 truthy (dict_get (map_of (vector (current_config self))) (ascii ''v_formula'')
                           (PyStr (ascii ''vector_v'')))
              then Some (dict_get (map_of (vector (current_config self))) (ascii ''v_formula'')
                           (PyStr (ascii ''vector_v'')))
              else None)"
    by (intro exI [of _ ?d]) (simp only: simp_thms profile_plot_dialog.simps)
qed


lemma sample_results:
  "interpolated_results (plot_widget sample_window) =
     Some [(ascii ''heatmap_data'', Some [[1]]), (ascii ''contour_data'', Some [[2]]),
           (ascii ''vector_u_data'', None)]"
  "current_config sample_window = sample_config" "profile_dialog sample_window = None"
  by (simp_all add: sample_window_def)

lemma sample_lookups:
  "map_of [(ascii ''heatmap_data'', Some [[1::real]]), (ascii ''contour_data'', Some [[2]]),
           (ascii ''vector_u_data'', None)] (ascii ''heatmap_data'') = Some (Some [[1]])"
  "map_of [(ascii ''heatmap_data'', Some [[1::real]]), (ascii ''contour_data'', Some [[2]]),
           (ascii ''vector_u_data'', None)] (ascii ''contour_data'') = Some (Some [[2]])"
  "map_of [(ascii ''heatmap_data'', Some [[1::real]]), (ascii ''contour_data'', Some [[2]]),
           (ascii ''vector_u_data'', None)] (ascii ''vector_u_data'') = Some None"
  "map_of [(ascii ''heatmap_data'', Some [[1::real]]), (ascii ''contour_data'', Some [[2]]),
           (ascii ''vector_u_data'', None)] (ascii ''vector_v_data'') = None"
  by (simp_all add: ascii_def)

lemma sample_config_lookups:
  "dict_get (map_of (heatmap sample_config)) (ascii ''enabled'') PyNone = PyBool True"
  "dict_get (map_of (heatmap sample_config)) (ascii ''formula'') (PyStr (ascii ''heatmap'')) =
     PyStr (ascii ''heatmap'')"
  "map_of (heatmap sample_config) (ascii ''formula'') = None"
  "dict_get (map_of (contour sample_config)) (ascii ''enabled'') PyNone = PyBool True"
  "dict_get (map_of (contour sample_config)) (ascii ''formula'') (PyStr (ascii ''contour'')) = PyStr []"
  "dict_get (map_of (vector sample_config)) (ascii ''enabled'') PyNone = PyBool False"
  by (simp_all add: sample_config_def dict_get_def ascii_def)

theorem profile_line_outcome_witness:
  "interpolated_results (plot_widget sample_window) =
     Some [(ascii ''heatmap_data'', Some [[1]]), (ascii ''contour_data'', Some [[2]]),
           (ascii ''vector_u_data'', None)] \<and>
   (\<exists>d. profile_dialog (on_profile_line_defined (0, 0) (1, 1) sample_window) = Some d \<and>
        profile_visible d \<and>
        map_of (available_data d) (ascii ''heatmap'') = Some (PyStr (ascii ''heatmap'')) \<and>
        map_of (available_data d) (ascii ''contour'') = None \<and>
        map_of (available_data d) (ascii ''vector_u'') = None \<and>
        map_of (available_data d) (ascii ''vector_v'') = None) \<and>
   profile_dialog (on_profile_line_defined (0, 0) (1, 1)
      (sample_window\<lparr>plot_widget := (plot_widget sample_window)\<lparr>interpolated_results := Some []\<rparr>\<rparr>)) = None"
proof -
  let ?results = "[(ascii ''heatmap_data'', Some [[1::real]]), (ascii ''contour_data'', Some [[2]]),
           (ascii ''vector_u_data'', None)]"
  let ?empty = "sample_window\<lparr>plot_widget := (plot_widget sample_window)\<lparr>interpolated_results := Some []\<rparr>\<rparr>"
  have r: "interpolated_results (plot_widget sample_window) = Some ?results \<and> ?results \<noteq> []"
    by (simp add: sample_results)
  from profile_line_outcome [of sample_window "(0, 0)" "(1, 1)"] r
  obtain d where d: "profile_dialog (on_profile_line_defined (0, 0) (1, 1) sample_window) = Some d"
    and v: "profile_visible d"
    and e1: "map_of (available_data d) (ascii ''heatmap'') =
             (if (\<exists>g. map_of ?results (ascii ''heatmap_data'') = Some (Some g)) \<and>
                 truthy (dict_get (map_of (heatmap (current_config sample_window))) (ascii ''enabled'') PyNone) \<and>
                 truthy (dict_get (map_of (heatmap (current_config sample_window))) (ascii ''formula'')
                           (PyStr (ascii ''heatmap'')))
              then Some (dict_get (map_of (heatmap (current_config sample_window))) (ascii ''formula'')
                           (PyStr (ascii ''heatmap'')))
              else None)"
    and e2: "map_of (available_data d) (ascii ''contour'') =
             (if (\<exists>g. map_of ?results (ascii ''contour_data'') = Some (Some g)) \<and>
                 truthy (dict_get (map_of (contour (current_config sample_window))) (ascii ''enabled'') PyNone) \<and>
                 truthy (dict_get (map_of (contour (current_config sample_window))) (ascii ''formula'')
                           (PyStr (ascii ''contour'')))
              then Some (dict_get (map_of (contour (current_config sample_window))) (ascii ''formula'')
                           (PyStr (ascii ''contour'')))
              else None)"
    and e3: "map_of (available_data d) (ascii ''vector_u'') =
             (if (\<exists>g. map_of ?results (ascii ''vector_u_data'') = Some (Some g)) \<and>
                 truthy (dict_get (map_of (vector (current_config sample_window))) (ascii ''enabled'') PyNone) \<and>
                 truthy (dict_get (map_of (vector (current_config sample_window))) (ascii ''u_formula'')
                           (PyStr (ascii ''vector_u'')))
              then Some (dict_get (map_of (vector (current_config sample_window))) (ascii ''u_formula'')
                           (PyStr (ascii ''vector_u'')))
              else None)"
    and e4: "map_of (available_data d) (ascii ''vector_v'') =
             (if (\<exists>g. map_of ?results (ascii ''vector_v_data'') = Some (Some g)) \<and>
                 truthy (dict_get (map_of (vector (current_config sample_window))) (ascii ''enabled'') PyNone) \<and>
                 truthy (dict_get (map_of (vector (current_config sample_window))) (ascii ''v_formula'')
                           (PyStr (ascii ''vector_v'')))
              then Some (dict_get (map_of (vector (current_config sample_window))) (ascii ''v_formula'')
                           (PyStr (ascii ''vector_v'')))
              else None)"
    by blast
  have h1: "map_of (available_data d) (ascii ''heatmap'') = Some (PyStr (ascii ''heatmap''))"
    unfolding e1 sample_results sample_lookups sample_config_lookups by (simp add: ascii_def)
  have h2: "map_of (available_data d) (ascii ''contour'') = None"
    unfolding e2 sample_results sample_lookups sample_config_lookups by simp
  have h3: "map_of (available_data d) (ascii ''vector_u'') = None"
    unfolding e3 sample_results sample_lookups sample_config_lookups by simp
  have h4: "map_of (available_data d) (ascii ''vector_v'') = None"
    unfolding e4 sample_results sample_lookups sample_config_lookups by simp
  have n: "interpolated_results (plot_widget ?empty) = None \<or>
           interpolated_results (plot_widget ?empty) = Some []"
    by simp
  from profile_line_outcome [of ?empty "(0, 0)" "(1, 1)"] n
  have "profile_dialog (on_profile_line_defined (0, 0) (1, 1) ?empty) = profile_dialog ?empty"
    by blast
  then have h5: "profile_dialog (on_profile_line_defined (0, 0) (1, 1) ?empty) = None"
    by (simp add: sample_results)
  from r d v h1 h2 h3 h4 h5 show ?thesis by blast
qed

lemma sample_available:
  "foldl (add_available
            [(ascii ''heatmap_data'', Some [[1]]), (ascii ''contour_data'', Some [[2]]),
             (ascii ''vector_u_data'', None)] sample_config) [] profile_keys =
     [(ascii ''heatmap'', PyStr (ascii ''heatmap''))]"
  unfolding profile_keys_def foldl_Cons foldl_Nil add_available_def data_keys sample_lookups
    layer_formula_keys sample_config_lookups
  by (simp add: ascii_def)

text \<open>
  Claim C4 as stated fails where the configuration gives no formula for an enabled layer:
  the heat map of the sample window is enabled without a formula, and the dialog still
  receives an entry for it, the key \<open>heatmap\<close> serving as the formula.
\<close>

theorem default_formula_counterexample:
  "map_of (heatmap (current_config sample_window)) (ascii ''formula'') = None \<and>
   map_option available_data (profile_dialog (on_profile_line_defined (0, 0) (1, 1) sample_window)) =
     Some [(ascii ''heatmap'', PyStr (ascii ''heatmap''))]"
proof -
  have r: "interpolated_results (plot_widget sample_window) =
     Some [(ascii ''heatmap_data'', Some [[1]]), (ascii ''contour_data'', Some [[2]]),
           (ascii ''vector_u_data'', None)]"
    by (rule sample_results)
  have ne: "[(ascii ''heatmap_data'', Some [[1::real]]), (ascii ''contour_data'', Some [[2]]),
           (ascii ''vector_u_data'', None)] \<noteq> []"
    by simp
  show ?thesis
    unfolding on_profile_line_results(1) [OF r ne] sample_results sample_available
    by (simp add: sample_config_lookups)
qed


subsection \<open>The import worker\<close>

lemma worker_connect_events [simp]:
  "events (worker_connect sig handler self) = events self @ [Worker_connect sig handler]"
  "import_progress_dialog (worker_connect sig handler self) = import_progress_dialog self"
  "import_worker (worker_connect sig handler self) =
     map_option (\<lambda>w. w\<lparr>connections := connections w @ [(sig, handler)]\<rparr>) (import_worker self)"
  by (simp_all add: worker_connect_def)

lemma start_database_import_events:
  "events (start_database_import self) =
     events self @
     [Worker_connect Progress Update_progress, Worker_connect Log_message Set_log_message,
      Worker_connect Finished On_import_finished, Worker_connect Error On_error,
      Worker_start, Import_dialog_exec]"
  by (simp add: start_database_import_def Let_def)

lemma start_database_import_worker:
  "import_worker (start_database_import self) =
     Some \<lparr>connections = [(Progress, Update_progress), (Log_message, Set_log_message),
                            (Finished, On_import_finished), (Error, On_error)],
           running = True\<rparr>"
  by (simp add: start_database_import_def Let_def)

lemma start_database_import_dialog:
  "\<exists>d. import_progress_dialog (start_database_import self) = Some d \<and> dialog_visible d"
  by (simp add: start_database_import_def Let_def)

lemma accept_import_dialog_simps [simp]:
  "events (accept_import_dialog self) = events self @ [Import_dialog_accept]"
  "import_progress_dialog (accept_import_dialog self) =
     map_option (\<lambda>d. d\<lparr>dialog_visible := False\<rparr>) (import_progress_dialog self)"
  "import_worker (accept_import_dialog self) = import_worker self"
  by (simp_all add: accept_import_dialog_def)

text \<open>
  Claim C7. \<open>_start_database_import\<close> connects the worker's \<open>progress\<close>,
  \<open>log_message\<close>, \<open>finished\<close> and \<open>error\<close> signals before it starts the worker, and
  then runs the progress dialog. On the \<open>finished\<close> signal the dialog is accepted and the
  project data is loaded. On an error while the progress dialog is visible, \<open>_on_error\<close>
  first accepts the dialog and then shows the message in the status bar and in a critical
  message box; without a visible dialog it shows the two messages only.
\<close>

theorem import_wiring:
  "events (start_database_import self) =
     events self @
     [Worker_connect Progress Update_progress, Worker_connect Log_message Set_log_message,
      Worker_connect Finished On_import_finished, Worker_connect Error On_error,
      Worker_start, Import_dialog_exec] \<and>
   connected_before_start [] (drop (length (events self)) (events (start_database_import self))) \<and>
   import_worker (start_database_import self) =
     Some \<lparr>connections = [(Progress, Update_progress), (Log_message, Set_log_message),
                            (Finished, On_import_finished), (Error, On_error)],
           running = True\<rparr> \<and>
   (\<exists>d. import_progress_dialog (start_database_import self) = Some d \<and> dialog_visible d) \<and>
   (\<forall>d. import_progress_dialog self = Some d \<longrightarrow>
      (\<exists>title body.
         events (on_import_finished self) =
           events self @ [Import_dialog_accept, Message_information title body, Load_project_data]) \<and>
      import_progress_dialog (on_import_finished self) = Some (d\<lparr>dialog_visible := False\<rparr>)) \<and>
   (\<forall>d message. import_progress_dialog self = Some d \<and> dialog_visible d \<longrightarrow>
      events (on_error message self) =
        events self @
        [Import_dialog_accept,
         Status_message ([0x9519, 0x8BEF] @ ascii '': '' @ message) 5000,
         Message_critical [0x53D1, 0x751F, 0x9519, 0x8BEF] message] \<and>
      import_progress_dialog (on_error message self) = Some (d\<lparr>dialog_visible := False\<rparr>)) \<and>
   (\<forall>message. (\<forall>d. import_progress_dialog self = Some d \<longrightarrow> \<not> dialog_visible d) \<longrightarrow>
      events (on_error message self) =
        events self @
        [Status_message ([0x9519, 0x8BEF] @ ascii '': '' @ message) 5000,
         Message_critical [0x53D1, 0x751F, 0x9519, 0x8BEF] message] \<and>
      import_progress_dialog (on_error message self) = import_progress_dialog self)"
proof (intro conjI allI impI)
  show "events (start_database_import self) =
     events self @
     [Worker_connect Progress Update_progress, Worker_connect Log_message Set_log_message,
      Worker_connect Finished On_import_finished, Worker_connect Error On_error,
      Worker_start, Import_dialog_exec]"
    by (rule start_database_import_events)
  show "connected_before_start [] (drop (length (events self)) (events (start_database_import self)))"
    by (simp add: start_database_import_events)
  show "import_worker (start_database_import self) =
     Some \<lparr>connections = [(Progress, Update_progress), (Log_message, Set_log_message),
                            (Finished, On_import_finished), (Error, On_error)],
           running = True\<rparr>"
    by (rule start_database_import_worker)
  show "\<exists>d. import_progress_dialog (start_database_import self) = Some d \<and> dialog_visible d"
    by (rule start_database_import_dialog)
next
  fix d assume "import_progress_dialog self = Some d"
  then show "\<exists>title body.
         events (on_import_finished self) =
           events self @ [Import_dialog_accept, Message_information title body, Load_project_data]"
    and "import_progress_dialog (on_import_finished self) = Some (d\<lparr>dialog_visible := False\<rparr>)"
    by (simp_all add: on_import_finished_def Let_def)
next
  fix d message assume "import_progress_dialog self = Some d \<and> dialog_visible d"
  then show "events (on_error message self) =
        events self @
        [Import_dialog_accept,
         Status_message ([0x9519, 0x8BEF] @ ascii '': '' @ message) 5000,
         Message_critical [0x53D1, 0x751F, 0x9519, 0x8BEF] message]"
    and "import_progress_dialog (on_error message self) = Some (d\<lparr>dialog_visible := False\<rparr>)"
    by (simp_all add: on_error_def Let_def)
next
  fix message assume "\<forall>d. import_progress_dialog self = Some d \<longrightarrow> \<not> dialog_visible d"
  then show "events (on_error message self) =
        events self @
        [Status_message ([0x9519, 0x8BEF] @ ascii '': '' @ message) 5000,
         Message_critical [0x53D1, 0x751F, 0x9519, 0x8BEF] message]"
    and "import_progress_dialog (on_error message self) = import_progress_dialog self"
    by (simp_all add: on_error_def Let_def split: option.splits)
qed

theorem import_wiring_witness:
  "(\<exists>d. import_progress_dialog (start_database_import sample_window) = Some d \<and> dialog_visible d) \<and>
   import_progress_dialog sample_window = None \<and>
   events (on_error (ascii ''disk full'') (start_database_import sample_window)) =
     [Worker_connect Progress Update_progress, Worker_connect Log_message Set_log_message,
      Worker_connect Finished On_import_finished, Worker_connect Error On_error,
      Worker_start, Import_dialog_exec, Import_dialog_accept,
      Status_message ([0x9519, 0x8BEF] @ ascii '': disk full'') 5000,
      Message_critical [0x53D1, 0x751F, 0x9519, 0x8BEF] (ascii ''disk full'')] \<and>
   (\<exists>title body.
      events (on_import_finished (start_database_import sample_window)) =
        [Worker_connect Progress Update_progress, Worker_connect Log_message Set_log_message,
         Worker_connect Finished On_import_finished, Worker_connect Error On_error,
         Worker_start, Import_dialog_exec, Import_dialog_accept,
         Message_information title body, Load_project_data]) \<and>
   events (on_error (ascii ''disk full'') sample_window) =
     [Status_message ([0x9519, 0x8BEF] @ ascii '': disk full'') 5000,
      Message_critical [0x53D1, 0x751F, 0x9519, 0x8BEF] (ascii ''disk full'')]"
proof -
  let ?w = "start_database_import sample_window"
  have e0: "events sample_window = []" and d0: "import_progress_dialog sample_window = None"
    by (simp_all add: sample_window_def)
  from import_wiring [of sample_window] obtain d where
    d: "import_progress_dialog ?w = Some d" "dialog_visible d"
    and ev: "events ?w = events sample_window @
       [Worker_connect Progress Update_progress, Worker_connect Log_message Set_log_message,
        Worker_connect Finished On_import_finished, Worker_connect Error On_error,
        Worker_start, Import_dialog_exec]"
    by blast
  from import_wiring [of ?w] d
  have err: "events (on_error (ascii ''disk full'') ?w) =
        events ?w @
        [Import_dialog_accept,
         Status_message ([0x9519, 0x8BEF] @ ascii '': '' @ ascii ''disk full'') 5000,
         Message_critical [0x53D1, 0x751F, 0x9519, 0x8BEF] (ascii ''disk full'')]"
    by blast
  from import_wiring [of ?w] d
  have fin: "\<exists>title body. events (on_import_finished ?w) =
           events ?w @ [Import_dialog_accept, Message_information title body, Load_project_data]"
    by blast
  from import_wiring [of sample_window] d0
  have quiet: "events (on_error (ascii ''disk full'') sample_window) =
        events sample_window @
        [Status_message ([0x9519, 0x8BEF] @ ascii '': '' @ ascii ''disk full'') 5000,
         Message_critical [0x53D1, 0x751F, 0x9519, 0x8BEF] (ascii ''disk full'')]"
    by simp
  from d d0 err fin quiet show ?thesis
    by (simp add: ev e0 ascii_def)
qed


subsection \<open>Initialising a project\<close>

lemma start_database_import_data_manager [simp]:
  "data_manager (start_database_import self) = data_manager self"
  by (simp add: start_database_import_def Let_def worker_connect_def)

lemma initialize_project_failed:
  assumes "setup_project_directory api (data_manager self) (project_dir self) = (False, dm')"
  shows "initialize_project api reply self = self\<lparr>data_manager := dm'\<rparr>"
  using assms by (simp add: initialize_project_def)

lemma initialize_project_ready:
  assumes "setup_project_directory api (data_manager self) (project_dir self) = (True, dm')"
    and "is_database_ready api dm'"
  shows "\<exists>line. initialize_project api reply self =
           emit Load_project_data (emit (Log_info line) (self\<lparr>data_manager := dm'\<rparr>))"
  using assms by (simp add: initialize_project_def Let_def) (intro exI, rule refl)

lemma initialize_project_import:
  assumes "setup_project_directory api (data_manager self) (project_dir self) = (True, dm')"
    and "\<not> is_database_ready api dm'"
  shows "\<exists>title body. initialize_project api Yes self =
           start_database_import (emit (Message_question title body) (self\<lparr>data_manager := dm'\<rparr>))"
  using assms by (simp add: initialize_project_def Let_def) (intro exI, rule refl)

lemma initialize_project_declined:
  assumes "setup_project_directory api (data_manager self) (project_dir self) = (True, dm')"
    and "\<not> is_database_ready api dm'"
  shows "\<exists>title body message. initialize_project api No self =
           emit (Status_message message 5000)
             (emit (Message_question title body) (self\<lparr>data_manager := dm'\<rparr>))"
  using assms by (simp add: initialize_project_def Let_def) (intro exI, rule refl)

text \<open>
  Claim C8, as amended. When \<open>setup_project_directory\<close> fails, project initialisation
  does nothing more. Otherwise, if the data manager reports the database as ready, the
  existing data store is loaded directly, without a question; if not, the user is asked
  whether to create a new data store from the CSV files of the directory, the import
  starts only on the answer Yes, and the answer No leaves the project unloaded with a
  status-bar message only.
\<close>

theorem initialize_project_cases:
  fixes api :: "'dm manager_api" and reply :: standard_button and self :: "'dm main_window"
  defines "ok \<equiv> fst (setup_project_directory api (data_manager self) (project_dir self))"
    and "dm' \<equiv> snd (setup_project_directory api (data_manager self) (project_dir self))"
    and "new \<equiv> drop (length (events self)) (events (initialize_project api reply self))"
  shows "events (initialize_project api reply self) = events self @ new \<and>
         data_manager (initialize_project api reply self) = dm' \<and>
         (\<not> ok \<longrightarrow> initialize_project api reply self = self\<lparr>data_manager := dm'\<rparr>) \<and>
         (ok \<and> is_database_ready api dm' \<longrightarrow>
            (\<exists>line. new = [Log_info line, Load_project_data]) \<and>
            import_worker (initialize_project api reply self) = import_worker self) \<and>
         (ok \<and> \<not> is_database_ready api dm' \<and> reply = Yes \<longrightarrow>
            (\<exists>title body.
               new = [Message_question title body,
                      Worker_connect Progress Update_progress,
                      Worker_connect Log_message Set_log_message,
                      Worker_connect Finished On_import_finished,
                      Worker_connect Error On_error, Worker_start, Import_dialog_exec])) \<and>
         (ok \<and> \<not> is_database_ready api dm' \<and> reply = No \<longrightarrow>
            (\<exists>title body message.
               new = [Message_question title body, Status_message message 5000]) \<and>
            import_worker (initialize_project api reply self) = import_worker self \<and>
            import_progress_dialog (initialize_project api reply self) = import_progress_dialog self) \<and>
         (Load_project_data \<in> set new \<longleftrightarrow> ok \<and> is_database_ready api dm') \<and>
         ((\<exists>title body. Message_question title body \<in> set new) \<longleftrightarrow>
            ok \<and> \<not> is_database_ready api dm') \<and>
         (Worker_start \<in> set new \<longleftrightarrow> ok \<and> \<not> is_database_ready api dm' \<and> reply = Yes)"
proof -
  have sp: "setup_project_directory api (data_manager self) (project_dir self) = (ok, dm')"
    unfolding ok_def dm'_def by (rule prod.collapse [symmetric])
  show ?thesis
  proof (cases ok)
    case False
    with sp have "setup_project_directory api (data_manager self) (project_dir self) = (False, dm')"
      by simp
    then have "initialize_project api reply self = self\<lparr>data_manager := dm'\<rparr>"
      by (rule initialize_project_failed)
    with False show ?thesis by (simp add: new_def)
  next
    case True
    note ok = True
    show ?thesis
    proof (cases "is_database_ready api dm'")
      case True
      from sp ok have s: "setup_project_directory api (data_manager self) (project_dir self) = (True, dm')"
        by simp
      from initialize_project_ready [OF s True, of reply] obtain line where
        "initialize_project api reply self =
           emit Load_project_data (emit (Log_info line) (self\<lparr>data_manager := dm'\<rparr>))"
        by blast
      with ok True show ?thesis by (simp add: new_def emit_def)
    next
      case False
      from sp ok have s: "setup_project_directory api (data_manager self) (project_dir self) = (True, dm')"
        by simp
      show ?thesis
      proof (cases reply)
        case Yes
        from initialize_project_import [OF s False] obtain title body where
          "initialize_project api Yes self =
             start_database_import (emit (Message_question title body) (self\<lparr>data_manager := dm'\<rparr>))"
          by blast
        with ok False Yes show ?thesis
          by (simp add: new_def start_database_import_events emit_def)
      next
        case No
        from initialize_project_declined [OF s False] obtain title body message where
          "initialize_project api No self =
             emit (Status_message message 5000)
               (emit (Message_question title body) (self\<lparr>data_manager := dm'\<rparr>))"
          by blast
        with ok False No show ?thesis by (simp add: new_def emit_def)
      qed
    qed
  qed
qed


lemma sample_setup [simp]:
  "setup_project_directory sample_manager dm dir = (dir \<noteq> [], dm)"
  "is_database_ready sample_manager dm = (0 < dm)"
  by (simp_all add: sample_manager_def)

lemma sample_window_fields [simp]:
  "data_manager sample_window = 0" "project_dir sample_window = ascii ''/p''"
  "events sample_window = []" "import_worker sample_window = None"
  "import_progress_dialog sample_window = None"
  by (simp_all add: sample_window_def)

theorem initialize_project_cases_witness:
  "fst (setup_project_directory sample_manager (data_manager sample_window) (project_dir sample_window)) \<and>
   \<not> is_database_ready sample_manager
       (snd (setup_project_directory sample_manager (data_manager sample_window) (project_dir sample_window))) \<and>
   (\<exists>title body message.
      events (initialize_project sample_manager No sample_window) =
        [Message_question title body, Status_message message 5000]) \<and>
   import_worker (initialize_project sample_manager No sample_window) = None \<and>
   Worker_start \<in> set (events (initialize_project sample_manager Yes sample_window)) \<and>
   Load_project_data \<in>
     set (events (initialize_project sample_manager No (sample_window\<lparr>data_manager := 5\<rparr>)))"
proof -
  have ok: "fst (setup_project_directory sample_manager (data_manager sample_window)
      (project_dir sample_window))"
    by (simp add: ascii_def)
  have nr: "\<not> is_database_ready sample_manager
       (snd (setup_project_directory sample_manager (data_manager sample_window) (project_dir sample_window)))"
    by simp
  from initialize_project_cases [of sample_manager No sample_window] ok nr
  have a: "(\<exists>title body message.
      events (initialize_project sample_manager No sample_window) =
        [Message_question title body, Status_message message 5000]) \<and>
      import_worker (initialize_project sample_manager No sample_window) = None"
    by auto
  from initialize_project_cases [of sample_manager Yes sample_window] ok nr
  have b: "Worker_start \<in> set (events (initialize_project sample_manager Yes sample_window))"
    by auto
  have ok5: "fst (setup_project_directory sample_manager
      (data_manager (sample_window\<lparr>data_manager := 5\<rparr>))
      (project_dir (sample_window\<lparr>data_manager := 5\<rparr>)))"
    by (simp add: ascii_def)
  have r5: "is_database_ready sample_manager
       (snd (setup_project_directory sample_manager
          (data_manager (sample_window\<lparr>data_manager := 5\<rparr>))
          (project_dir (sample_window\<lparr>data_manager := 5\<rparr>))))"
    by simp
  from initialize_project_cases [of sample_manager No "sample_window\<lparr>data_manager := 5\<rparr>"] ok5 r5
  have c: "Load_project_data \<in>
     set (events (initialize_project sample_manager No (sample_window\<lparr>data_manager := 5\<rparr>)))"
    by auto
  from ok nr a b c show ?thesis by blast
qed

text \<open>
  Claim C8 as stated fails when the project directory cannot be set up: the user is not
  asked although the database is not ready, and a ready database is not loaded.
\<close>

theorem setup_failure_skips_initialization:
  "\<not> fst (setup_project_directory sample_manager 0 []) \<and>
   \<not> is_database_ready sample_manager 0 \<and>
   initialize_project sample_manager Yes (sample_window\<lparr>project_dir := []\<rparr>) =
     sample_window\<lparr>project_dir := []\<rparr> \<and>
   is_database_ready sample_manager 5 \<and>
   events (initialize_project sample_manager Yes
             (sample_window\<lparr>project_dir := [], data_manager := 5\<rparr>)) = []"
  by (simp add: initialize_project_def)

end
